theory Spec2Isabelle
  imports Complex_Main
begin

section \<open>Vector math\<close>

text \<open>
  The program is \<^verbatim>\<open>bezier.js\<close>. A JavaScript number is read as a real number, so the
  statements below are about exact arithmetic, except those on \<open>calculatePoint_f64\<close>,
  which follow the rounding of binary64. Overflow to infinity and NaN are outside the
  embedding. None of the arithmetic operations of the source can throw, so the
  operations are plain total functions with no error branch.
\<close>

record Vector2 =
  x :: real
  y :: real

definition Vector2_new :: "real \<Rightarrow> real \<Rightarrow> Vector2" where
  "Vector2_new a b = \<lparr>x = a, y = b\<rparr>"

definition add :: "Vector2 \<Rightarrow> Vector2 \<Rightarrow> Vector2" where
  "add this v = Vector2_new (x this + x v) (y this + y v)"

definition subtract :: "Vector2 \<Rightarrow> Vector2 \<Rightarrow> Vector2" where
  "subtract this v = Vector2_new (x this - x v) (y this - y v)"

definition multiply :: "Vector2 \<Rightarrow> real \<Rightarrow> Vector2" where
  "multiply this s = Vector2_new (x this * s) (y this * s)"

definition length_vec :: "Vector2 \<Rightarrow> real" where
  "length_vec this = sqrt (x this * x this + y this * y this)"

definition normalize_vec :: "Vector2 \<Rightarrow> Vector2" where
  "normalize_vec this =
     (let len = length_vec this
      in if len = 0 then Vector2_new 0 0 else Vector2_new (x this / len) (y this / len))"

definition distanceTo :: "Vector2 \<Rightarrow> Vector2 \<Rightarrow> real" where
  "distanceTo this v = length_vec (subtract this v)"

definition copy :: "Vector2 \<Rightarrow> Vector2" where
  "copy this = Vector2_new (x this) (y this)"

section \<open>Physics control point\<close>

record ControlPoint =
  position :: Vector2
  velocity :: Vector2
  target :: Vector2
  isFixed :: bool
  isDragging :: bool
  radius :: real

definition ControlPoint_new :: "real \<Rightarrow> real \<Rightarrow> bool \<Rightarrow> ControlPoint" where
  "ControlPoint_new a b fixed =
     \<lparr>position = Vector2_new a b, velocity = Vector2_new 0 0, target = Vector2_new a b,
      isFixed = fixed, isDragging = False, radius = 10\<rparr>"

text \<open>
  \<^verbatim>\<open>applyPhysics\<close> mutates the point in place; the model returns the updated point. The
  three assignments of the source are kept in their order: the position is advanced
  with the velocity that has just been integrated, and the decay by 0.99 comes last.
\<close>

definition applyPhysics :: "ControlPoint \<Rightarrow> real \<Rightarrow> real \<Rightarrow> real \<Rightarrow> ControlPoint" where
  "applyPhysics this stiffness damping dt =
     (if isFixed this \<or> isDragging this then this
      else
        let springForce = multiply (subtract (target this) (position this)) stiffness;
            dampingForce = multiply (velocity this) (- damping);
            acceleration = add springForce dampingForce;
            this1 = this\<lparr>velocity := add (velocity this) (multiply acceleration dt)\<rparr>;
            this2 = this1\<lparr>position := add (position this1) (multiply (velocity this1) dt)\<rparr>
        in this2\<lparr>velocity := multiply (velocity this2) 0.99\<rparr>)"

definition contains :: "ControlPoint \<Rightarrow> Vector2 \<Rightarrow> bool" where
  "contains this point = (distanceTo (position this) point \<le> radius this)"

text \<open>Repeated calls of \<^verbatim>\<open>applyPhysics\<close> with the same parameters.\<close>

fun steps :: "nat \<Rightarrow> real \<Rightarrow> real \<Rightarrow> real \<Rightarrow> ControlPoint \<Rightarrow> ControlPoint" where
  "steps 0 stiffness damping dt pt = pt"
| "steps (Suc n) stiffness damping dt pt =
     steps n stiffness damping dt (applyPhysics pt stiffness damping dt)"

text \<open>
  Whether the point is within 1 unit of its target before some call among the first
  \<open>n\<close>, or after the last of them.
\<close>

fun within_steps :: "nat \<Rightarrow> real \<Rightarrow> real \<Rightarrow> real \<Rightarrow> ControlPoint \<Rightarrow> bool" where
  "within_steps 0 k d dt pt = (distanceTo (position pt) (target pt) \<le> 1)"
| "within_steps (Suc n) k d dt pt =
     (distanceTo (position pt) (target pt) \<le> 1 \<or> within_steps n k d dt (applyPhysics pt k d dt))"

text \<open>
  One call with the parameters 0.08, 0.92 and 1/60, seen on one coordinate: what the
  offset target - position and the velocity become. Both are linear in the pair, so a
  run from velocity zero is described by the two factors \<open>coefs n\<close> that multiply the
  initial offset.
\<close>

definition err_step :: "real \<Rightarrow> real \<Rightarrow> real" where
  "err_step e v = e - (v + (e * 0.08 + v * (- 0.92)) * (1 / 60)) * (1 / 60)"

definition vel_step :: "real \<Rightarrow> real \<Rightarrow> real" where
  "vel_step e v = (v + (e * 0.08 + v * (- 0.92)) * (1 / 60)) * 0.99"

fun coefs :: "nat \<Rightarrow> real \<times> real" where
  "coefs 0 = (1, 0)"
| "coefs (Suc n) = (err_step (fst (coefs n)) (snd (coefs n)), vel_step (fst (coefs n)) (snd (coefs n)))"

section \<open>Bezier curve math\<close>

text \<open>
  The curve holds its four control points in an array; the sampled polyline and the
  tangent markers are the two output arrays that \<^verbatim>\<open>update\<close> overwrites.
\<close>

record Tangent =
  point :: Vector2
  vector :: Vector2

record BezierCurve =
  points :: "ControlPoint list"
  curve :: "Vector2 list"
  tangents :: "Tangent list"
  segments :: nat

definition BezierCurve_new ::
  "ControlPoint \<Rightarrow> ControlPoint \<Rightarrow> ControlPoint \<Rightarrow> ControlPoint \<Rightarrow> BezierCurve" where
  "BezierCurve_new p0 p1 p2 p3 =
     \<lparr>points = [p0, p1, p2, p3], curve = [], tangents = [], segments = 100\<rparr>"

definition calculatePoint :: "BezierCurve \<Rightarrow> real \<Rightarrow> Vector2" where
  "calculatePoint this t =
     (let u = 1 - t;
          tt = t * t;
          uu = u * u;
          uuu = uu * u;
          ttt = tt * t;
          p0 = multiply (position (points this ! 0)) uuu;
          p1 = multiply (position (points this ! 1)) (3 * uu * t);
          p2 = multiply (position (points this ! 2)) (3 * u * tt);
          p3 = multiply (position (points this ! 3)) ttt
      in add (add (add p0 p1) p2) p3)"

definition calculateTangent :: "BezierCurve \<Rightarrow> real \<Rightarrow> Vector2" where
  "calculateTangent this t =
     (let u = 1 - t;
          p0 = position (points this ! 0);
          p1 = position (points this ! 1);
          p2 = position (points this ! 2);
          p3 = position (points this ! 3);
          term1 = multiply (subtract p1 p0) (3 * u * u);
          term2 = multiply (subtract p2 p1) (6 * u * t);
          term3 = multiply (subtract p3 p2) (3 * t * t)
      in add (add term1 term2) term3)"

text \<open>
  The \<^verbatim>\<open>for\<close> loop of \<^verbatim>\<open>update\<close>, with its counter \<open>i\<close> running up to
  \<^verbatim>\<open>segments\<close> inclusive. A tangent marker is pushed at every index divisible by 10.
  The sample count \<^verbatim>\<open>segments\<close> is 100 in every curve: the constructor sets it and
  nothing writes it again.
\<close>

function update_loop :: "nat \<Rightarrow> BezierCurve \<Rightarrow> BezierCurve" where
  "update_loop i this =
     (if i \<le> segments this then
        let t = real i / real (segments this);
            this1 = this\<lparr>curve := curve this @ [calculatePoint this t]\<rparr>;
            this2 =
              (if i mod 10 = 0 then
                 let tangent = calculateTangent this1 t;
                     normalized = normalize_vec tangent;
                     pt = calculatePoint this1 t
                 in this1\<lparr>tangents := tangents this1 @ [\<lparr>point = pt, vector = normalized\<rparr>]\<rparr>
               else this1)
        in update_loop (i + 1) this2
      else this)"
  by pat_completeness auto
termination
  by (relation "measure (\<lambda>(i, this). Suc (segments this) - i)") (auto simp: Let_def)

declare update_loop.simps [simp del]

definition update :: "BezierCurve \<Rightarrow> BezierCurve" where
  "update this = update_loop 0 (this\<lparr>curve := [], tangents := []\<rparr>)"

text \<open>
  The two values that the loop body pushes at index \<open>j\<close>: the sample of the polyline
  and the tangent marker.
\<close>

definition sample :: "BezierCurve \<Rightarrow> nat \<Rightarrow> Vector2" where
  "sample c j = calculatePoint c (real j / real (segments c))"

definition marker :: "BezierCurve \<Rightarrow> nat \<Rightarrow> Tangent" where
  "marker c j = \<lparr>point = calculatePoint c (real j / real (segments c)),
                 vector = normalize_vec (calculateTangent c (real j / real (segments c)))\<rparr>"

section \<open>Binary64 arithmetic\<close>

text \<open>
  Where a statement depends on rounding, the arithmetic of the source is read as it
  runs: every operation rounds its exact result to the nearest binary64 number, ties
  to the even significand. \<open>ulp_exp v\<close> is the exponent of the unit in the last place
  at \<open>v\<close>: 52 below the exponent of \<open>v\<close>, and never below -1074, where the subnormal
  numbers are. Results whose magnitude reaches \<open>2\<^sup>1\<^sup>0\<^sup>2\<^sup>4\<close> are infinite in the source
  and are not modelled; the statements about \<open>fl\<close> bound their inputs well below.
\<close>

definition round_even :: "real \<Rightarrow> int" where
  "round_even q =
     (let n = \<lfloor>q\<rfloor>; f = q - of_int n
      in if f < 1 / 2 then n else if 1 / 2 < f then n + 1 else if even n then n else n + 1)"

definition ulp_exp :: "real \<Rightarrow> int" where
  "ulp_exp v = max (\<lfloor>log 2 \<bar>v\<bar>\<rfloor> - 52) (- 1074)"

definition fl :: "real \<Rightarrow> real" where
  "fl v = (if v = 0 then 0
           else of_int (round_even (v / 2 powi ulp_exp v)) * 2 powi ulp_exp v)"

text \<open>
  \<^verbatim>\<open>add\<close>, \<^verbatim>\<open>multiply\<close> and \<^verbatim>\<open>calculatePoint\<close> with every operation rounded, in the
  order the source evaluates them: \<^verbatim>\<open>3 * uu * t\<close> is \<^verbatim>\<open>(3 * uu) * t\<close>.
\<close>

definition add_f64 :: "Vector2 \<Rightarrow> Vector2 \<Rightarrow> Vector2" where
  "add_f64 this v = Vector2_new (fl (x this + x v)) (fl (y this + y v))"

definition multiply_f64 :: "Vector2 \<Rightarrow> real \<Rightarrow> Vector2" where
  "multiply_f64 this s = Vector2_new (fl (x this * s)) (fl (y this * s))"

definition calculatePoint_f64 :: "BezierCurve \<Rightarrow> real \<Rightarrow> Vector2" where
  "calculatePoint_f64 this t =
     (let u = fl (1 - t);
          tt = fl (t * t);
          uu = fl (u * u);
          uuu = fl (uu * u);
          ttt = fl (tt * t);
          p0 = multiply_f64 (position (points this ! 0)) uuu;
          p1 = multiply_f64 (position (points this ! 1)) (fl (fl (3 * uu) * t));
          p2 = multiply_f64 (position (points this ! 2)) (fl (fl (3 * u) * tt));
          p3 = multiply_f64 (position (points this ! 3)) ttt
      in add_f64 (add_f64 (add_f64 p0 p1) p2) p3)"

section \<open>Main app\<close>

text \<open>
  The application object. Its fields \<^verbatim>\<open>p0\<close>, ..., \<^verbatim>\<open>p3\<close> and the entries of
  \<^verbatim>\<open>curve.points\<close> are the same four objects, so the model keeps the points once, in
  the curve, and reads \<^verbatim>\<open>p0\<close>, ..., \<^verbatim>\<open>p3\<close> as the entries 0 to 3. The field
  \<^verbatim>\<open>dragged\<close> is a reference to one of these objects or \<^verbatim>\<open>null\<close>: an index or
  \<open>None\<close>. Drawing and the texts written to the page change nothing that is read
  back, and are left out.
\<close>

record Physics =
  stiffness :: real
  damping :: real

record BezierApp =
  canvas_width :: real
  canvas_height :: real
  app_curve :: BezierCurve
  physics :: Physics
  mode :: string
  dragged :: "nat option"
  mousePos :: Vector2
  lastTime :: real
  fps :: real

definition p0 :: "BezierApp \<Rightarrow> ControlPoint" where
  "p0 this = points (app_curve this) ! 0"

definition p1 :: "BezierApp \<Rightarrow> ControlPoint" where
  "p1 this = points (app_curve this) ! 1"

definition p2 :: "BezierApp \<Rightarrow> ControlPoint" where
  "p2 this = points (app_curve this) ! 2"

definition p3 :: "BezierApp \<Rightarrow> ControlPoint" where
  "p3 this = points (app_curve this) ! 3"

text \<open>
  A write through a reference to the point at index \<open>i\<close>. The array has its four
  entries from the constructor on and no operation changes its length, so the index is
  in range wherever the source writes.
\<close>

definition upd_point :: "nat \<Rightarrow> (ControlPoint \<Rightarrow> ControlPoint) \<Rightarrow> BezierApp \<Rightarrow> BezierApp" where
  "upd_point i f this =
     this\<lparr>app_curve := (app_curve this)
       \<lparr>points := (points (app_curve this))[i := f (points (app_curve this) ! i)]\<rparr>\<rparr>"

definition BezierApp_new :: BezierApp where
  "BezierApp_new =
     (let w = 800; h = 500
      in \<lparr>canvas_width = w, canvas_height = h,
          app_curve = BezierCurve_new
            (ControlPoint_new (w * 0.2) (h * 0.5) True)
            (ControlPoint_new (w * 0.4) (h * 0.3) False)
            (ControlPoint_new (w * 0.6) (h * 0.7) False)
            (ControlPoint_new (w * 0.8) (h * 0.5) True),
          physics = \<lparr>stiffness = 0.08, damping = 0.92\<rparr>,
          mode = ''mouse'',
          dragged = None,
          mousePos = Vector2_new (w / 2) (h / 2),
          lastTime = 0,
          fps = 60\<rparr>)"

definition clampTargets :: "BezierApp \<Rightarrow> BezierApp" where
  "clampTargets this =
     (let margin = 50;
          w = canvas_width this;
          h = canvas_height this;
          this1 = upd_point 1 (\<lambda>p. p\<lparr>target := (target p)
                    \<lparr>x := max margin (min (x (target p)) (w - margin))\<rparr>\<rparr>) this;
          this2 = upd_point 1 (\<lambda>p. p\<lparr>target := (target p)
                    \<lparr>y := max margin (min (y (target p)) (h - margin))\<rparr>\<rparr>) this1;
          this3 = upd_point 2 (\<lambda>p. p\<lparr>target := (target p)
                    \<lparr>x := max margin (min (x (target p)) (w - margin))\<rparr>\<rparr>) this2
      in upd_point 2 (\<lambda>p. p\<lparr>target := (target p)
                    \<lparr>y := max margin (min (y (target p)) (h - margin))\<rparr>\<rparr>) this3)"

text \<open>
  A device-motion event: \<^verbatim>\<open>rotationRate\<close> may be absent, and so may each of its two
  rates; \<^verbatim>\<open>rate || 0\<close> reads an absent rate as 0.
\<close>

record RotationRate =
  beta :: "real option"
  gamma :: "real option"

record DeviceMotionEvent =
  rotationRate :: "RotationRate option"

definition or_zero :: "real option \<Rightarrow> real" where
  "or_zero r = (case r of None \<Rightarrow> 0 | Some v \<Rightarrow> v)"

definition handleMotion :: "BezierApp \<Rightarrow> DeviceMotionEvent \<Rightarrow> BezierApp" where
  "handleMotion this e =
     (if mode this \<noteq> ''motion'' then this
      else case rotationRate e of
        None \<Rightarrow> this
      | Some rate \<Rightarrow>
          let b = or_zero (beta rate);
              g = or_zero (gamma rate);
              sens = 8;
              this1 = upd_point 1 (\<lambda>p. p\<lparr>target := (target p)
                        \<lparr>x := x (target p) + g * sens\<rparr>\<rparr>) this;
              this2 = upd_point 1 (\<lambda>p. p\<lparr>target := (target p)
                        \<lparr>y := y (target p) + b * sens\<rparr>\<rparr>) this1;
              this3 = upd_point 2 (\<lambda>p. p\<lparr>target := (target p)
                        \<lparr>x := x (target p) - g * sens * 0.7\<rparr>\<rparr>) this2;
              this4 = upd_point 2 (\<lambda>p. p\<lparr>target := (target p)
                        \<lparr>y := y (target p) - b * sens * 0.7\<rparr>\<rparr>) this3
          in clampTargets this4)"

text \<open>
  A mouse event comes with the canvas rectangle that \<^verbatim>\<open>getBoundingClientRect\<close>
  returns at that moment.
\<close>

record DOMRect =
  left :: real
  top :: real

record MouseEvent =
  clientX :: real
  clientY :: real

text \<open>
  The scan of \<^verbatim>\<open>mouseDown\<close> over the points, in array order, leaving at the first
  point that is not fixed and contains the pointer.
\<close>

fun mouseDown_scan :: "nat list \<Rightarrow> Vector2 \<Rightarrow> BezierApp \<Rightarrow> BezierApp" where
  "mouseDown_scan [] pos this = this"
| "mouseDown_scan (i # rest) pos this =
     (let pt = points (app_curve this) ! i
      in if \<not> isFixed pt \<and> contains pt pos
         then upd_point i (\<lambda>p. p\<lparr>isDragging := True\<rparr>) (this\<lparr>dragged := Some i\<rparr>)
         else mouseDown_scan rest pos this)"

definition mouseDown :: "BezierApp \<Rightarrow> DOMRect \<Rightarrow> MouseEvent \<Rightarrow> BezierApp" where
  "mouseDown this rect e =
     (let pos = Vector2_new (clientX e - left rect) (clientY e - top rect)
      in mouseDown_scan [0 ..< length (points (app_curve this))] pos this)"

definition mouseMove :: "BezierApp \<Rightarrow> DOMRect \<Rightarrow> MouseEvent \<Rightarrow> BezierApp" where
  "mouseMove this rect e =
     (let pos = Vector2_new (clientX e - left rect) (clientY e - top rect);
          this1 = this\<lparr>mousePos := copy pos\<rparr>
      in case dragged this1 of
           Some i \<Rightarrow>
             upd_point i (\<lambda>p. p\<lparr>position := copy pos, target := copy pos,
                                 velocity := Vector2_new 0 0\<rparr>) this1
         | None \<Rightarrow>
             if mode this1 = ''mouse'' then
               let center = Vector2_new (canvas_width this1 / 2) (canvas_height this1 / 2);
                   offset = multiply (subtract pos center) 0.005;
                   this2 = upd_point 1 (\<lambda>p. p\<lparr>target := Vector2_new
                             (canvas_width this1 * 0.4 + x offset * 200)
                             (canvas_height this1 * 0.3 + y offset * 200)\<rparr>) this1;
                   this3 = upd_point 2 (\<lambda>p. p\<lparr>target := Vector2_new
                             (canvas_width this1 * 0.6 - x offset * 150)
                             (canvas_height this1 * 0.7 - y offset * 150)\<rparr>) this2
               in clampTargets this3
             else this1)"

definition mouseUp :: "BezierApp \<Rightarrow> BezierApp" where
  "mouseUp this =
     (case dragged this of
        Some i \<Rightarrow> (upd_point i (\<lambda>p. p\<lparr>isDragging := False\<rparr>) this)\<lparr>dragged := None\<rparr>
      | None \<Rightarrow> this)"

definition switchMode :: "BezierApp \<Rightarrow> BezierApp" where
  "switchMode this = this\<lparr>mode := (if mode this = ''mouse'' then ''motion'' else ''mouse'')\<rparr>"

definition reset :: "BezierApp \<Rightarrow> BezierApp" where
  "reset this =
     (let w = canvas_width this;
          h = canvas_height this;
          this1 = upd_point 1 (\<lambda>p. p\<lparr>position := Vector2_new (w * 0.4) (h * 0.3)\<rparr>) this;
          this2 = upd_point 1 (\<lambda>p. p\<lparr>target := copy (position p)\<rparr>) this1;
          this3 = upd_point 1 (\<lambda>p. p\<lparr>velocity := Vector2_new 0 0\<rparr>) this2;
          this4 = upd_point 2 (\<lambda>p. p\<lparr>position := Vector2_new (w * 0.6) (h * 0.7)\<rparr>) this3;
          this5 = upd_point 2 (\<lambda>p. p\<lparr>target := copy (position p)\<rparr>) this4;
          this6 = upd_point 2 (\<lambda>p. p\<lparr>velocity := Vector2_new 0 0\<rparr>) this5
      in this6\<lparr>dragged := None\<rparr>)"

definition updatePhysics :: "BezierApp \<Rightarrow> real \<Rightarrow> BezierApp" where
  "updatePhysics this dt =
     this\<lparr>app_curve := (app_curve this)
       \<lparr>points := map (\<lambda>pt. applyPhysics pt (stiffness (physics this)) (damping (physics this)) dt)
                      (points (app_curve this))\<rparr>\<rparr>"

definition loop :: "BezierApp \<Rightarrow> real \<Rightarrow> BezierApp" where
  "loop this timestamp =
     (let dt = (if lastTime this = 0 then 1 / 60 else (timestamp - lastTime this) / 1000);
          this1 = this\<lparr>lastTime := timestamp\<rparr>;
          stableDt = min dt (1 / 30);
          this2 = updatePhysics this1 stableDt
      in this2\<lparr>app_curve := update (app_curve this2)\<rparr>)"

text \<open>
  The listeners that \<^verbatim>\<open>setupEvents\<close>, \<^verbatim>\<open>initMotion\<close> and the constructor register:
  one event per listener, and a run of the application is a list of events handled in
  order from the constructed state.
\<close>

datatype Event =
    MouseDownEv DOMRect MouseEvent
  | MouseMoveEv DOMRect MouseEvent
  | MouseUpEv
  | MouseLeaveEv
  | StiffnessInput real
  | DampingInput real
  | ResetClick
  | ModeClick
  | DeviceMotionEv DeviceMotionEvent
  | AnimationFrame real

fun handle :: "BezierApp \<Rightarrow> Event \<Rightarrow> BezierApp" where
  "handle this (MouseDownEv rect e) = mouseDown this rect e"
| "handle this (MouseMoveEv rect e) = mouseMove this rect e"
| "handle this MouseUpEv = mouseUp this"
| "handle this MouseLeaveEv = mouseUp this"
| "handle this (StiffnessInput v) = this\<lparr>physics := (physics this)\<lparr>stiffness := v\<rparr>\<rparr>"
| "handle this (DampingInput v) = this\<lparr>physics := (physics this)\<lparr>damping := v\<rparr>\<rparr>"
| "handle this ResetClick = reset this"
| "handle this ModeClick = switchMode this"
| "handle this (DeviceMotionEv e) = handleMotion this e"
| "handle this (AnimationFrame timestamp) = loop this timestamp"

definition run :: "Event list \<Rightarrow> BezierApp" where
  "run events = foldl handle BezierApp_new events"

text \<open>
  The state invariant of the application: the two end points are as constructed, the
  two interior points are not fixed, and \<^verbatim>\<open>dragged\<close> refers to an interior point if to
  any.
\<close>

definition fixed_inv :: "BezierApp \<Rightarrow> bool" where
  "fixed_inv a \<longleftrightarrow>
     (\<exists>q1 q2. points (app_curve a) =
         [ControlPoint_new 160 250 True, q1, q2, ControlPoint_new 640 250 True]
       \<and> \<not> isFixed q1 \<and> \<not> isFixed q2)
     \<and> (dragged a = None \<or> dragged a = Some 1 \<or> dragged a = Some 2)"

section \<open>The integrator\<close>

text \<open>
  Claim C1. On a point that is neither fixed nor dragged, one call of \<^verbatim>\<open>applyPhysics\<close>
  is one semi-implicit Euler step, for all stiffness, damping and time step: the new
  velocity is (velocity + ((target - position) * stiffness + velocity * (-damping)) * dt)
  * 0.99, the new position is position + (velocity + ((target - position) * stiffness +
  velocity * (-damping)) * dt) * dt, as vectors and in each coordinate, and nothing else
  changes. From velocity (0,0), position.x = 480, target.x = 500, stiffness 0.08 and
  dt = 1/60 the x-velocity after one step is ((500-480)*0.08)*1/60*0.99.
\<close>

theorem applyPhysics_euler_step:
  assumes "\<not> isFixed p" and "\<not> isDragging p"
  shows "velocity (applyPhysics p k d dt) =
           multiply (add (velocity p)
             (multiply (add (multiply (subtract (target p) (position p)) k)
                            (multiply (velocity p) (- d))) dt)) 0.99
       \<and> position (applyPhysics p k d dt) =
           add (position p) (multiply (add (velocity p)
             (multiply (add (multiply (subtract (target p) (position p)) k)
                            (multiply (velocity p) (- d))) dt)) dt)
       \<and> x (velocity (applyPhysics p k d dt)) =
           (x (velocity p) + ((x (target p) - x (position p)) * k + x (velocity p) * (- d)) * dt) * 0.99
       \<and> y (velocity (applyPhysics p k d dt)) =
           (y (velocity p) + ((y (target p) - y (position p)) * k + y (velocity p) * (- d)) * dt) * 0.99
       \<and> x (position (applyPhysics p k d dt)) =
           x (position p) + (x (velocity p) + ((x (target p) - x (position p)) * k + x (velocity p) * (- d)) * dt) * dt
       \<and> y (position (applyPhysics p k d dt)) =
           y (position p) + (y (velocity p) + ((y (target p) - y (position p)) * k + y (velocity p) * (- d)) * dt) * dt
       \<and> target (applyPhysics p k d dt) = target p
       \<and> isFixed (applyPhysics p k d dt) = isFixed p
       \<and> isDragging (applyPhysics p k d dt) = isDragging p
       \<and> radius (applyPhysics p k d dt) = radius p
       \<and> (velocity p = Vector2_new 0 0 \<and> x (position p) = 480 \<and> x (target p) = 500 \<longrightarrow>
            x (velocity (applyPhysics p 0.08 d (1 / 60))) = ((500 - 480) * 0.08) * 1 / 60 * 0.99)"
  using assms
  by (simp add: applyPhysics_def Let_def add_def subtract_def multiply_def Vector2_new_def)

theorem applyPhysics_euler_step_witness:
  "\<not> isFixed ((ControlPoint_new 480 350 False)\<lparr>target := Vector2_new 500 200\<rparr>)
   \<and> \<not> isDragging ((ControlPoint_new 480 350 False)\<lparr>target := Vector2_new 500 200\<rparr>)
   \<and> velocity ((ControlPoint_new 480 350 False)\<lparr>target := Vector2_new 500 200\<rparr>) = Vector2_new 0 0
   \<and> x (position ((ControlPoint_new 480 350 False)\<lparr>target := Vector2_new 500 200\<rparr>)) = 480
   \<and> x (target ((ControlPoint_new 480 350 False)\<lparr>target := Vector2_new 500 200\<rparr>)) = 500
   \<and> x (velocity (applyPhysics ((ControlPoint_new 480 350 False)\<lparr>target := Vector2_new 500 200\<rparr>)
          0.08 0.92 (1 / 60))) = ((500 - 480) * 0.08) * 1 / 60 * 0.99"
proof -
  let ?p = "(ControlPoint_new 480 350 False)\<lparr>target := Vector2_new 500 200\<rparr>"
  have h1: "\<not> isFixed ?p" and h2: "\<not> isDragging ?p"
    by (simp_all add: ControlPoint_new_def)
  have h3: "velocity ?p = Vector2_new 0 0" and h4: "x (position ?p) = 480"
    and h5: "x (target ?p) = 500"
    by (simp_all add: ControlPoint_new_def Vector2_new_def)
  from applyPhysics_euler_step [OF h1 h2, of "0.08" "0.92" "1 / 60"] h3 h4 h5
  have "x (velocity (applyPhysics ?p 0.08 0.92 (1 / 60))) = ((500 - 480) * 0.08) * 1 / 60 * 0.99"
    by blast
  with h1 h2 h3 h4 h5 show ?thesis by blast
qed

text \<open>
  Claim C2. On a point that is fixed or dragged, \<^verbatim>\<open>applyPhysics\<close> changes nothing: the
  whole point, so its position, its velocity and every other field, is returned as it
  was, for all stiffness, damping and time step.
\<close>

theorem applyPhysics_suspended:
  "isFixed p \<or> isDragging p \<Longrightarrow> applyPhysics p k d dt = p"
  by (simp add: applyPhysics_def)

theorem applyPhysics_suspended_witness:
  "(isFixed (ControlPoint_new 160 250 True) \<or> isDragging (ControlPoint_new 160 250 True))
   \<and> applyPhysics (ControlPoint_new 160 250 True) 0.08 0.92 (1 / 60) = ControlPoint_new 160 250 True
   \<and> (isFixed ((ControlPoint_new 320 150 False)\<lparr>isDragging := True\<rparr>)
        \<or> isDragging ((ControlPoint_new 320 150 False)\<lparr>isDragging := True\<rparr>))
   \<and> applyPhysics ((ControlPoint_new 320 150 False)\<lparr>isDragging := True\<rparr>) 0.08 0.92 (1 / 60)
       = (ControlPoint_new 320 150 False)\<lparr>isDragging := True\<rparr>"
  using applyPhysics_suspended [of "ControlPoint_new 160 250 True" "0.08" "0.92" "1 / 60"]
    applyPhysics_suspended [of "(ControlPoint_new 320 150 False)\<lparr>isDragging := True\<rparr>" "0.08" "0.92" "1 / 60"]
  by (simp add: ControlPoint_new_def)

text \<open>
  Claim C9. With dt = 0, \<^verbatim>\<open>applyPhysics\<close> on a free point that is not dragged keeps the
  position and still multiplies the velocity by 0.99, so a velocity other than zero is
  changed although no time has passed.
\<close>

theorem applyPhysics_zero_dt:
  assumes "\<not> isFixed p" and "\<not> isDragging p"
  shows "position (applyPhysics p k d 0) = position p
       \<and> velocity (applyPhysics p k d 0) = multiply (velocity p) 0.99
       \<and> (velocity p \<noteq> Vector2_new 0 0 \<longrightarrow> velocity (applyPhysics p k d 0) \<noteq> velocity p)"
proof -
  have pos: "position (applyPhysics p k d 0) = position p"
    using assms
    by (simp add: applyPhysics_def Let_def add_def subtract_def multiply_def Vector2_new_def)
  have vel: "velocity (applyPhysics p k d 0) = multiply (velocity p) 0.99"
    using assms
    by (simp add: applyPhysics_def Let_def add_def subtract_def multiply_def Vector2_new_def)
  have "multiply v 0.99 = v \<Longrightarrow> v = Vector2_new 0 0" for v
  proof -
    assume h: "multiply v 0.99 = v"
    have "x (multiply v 0.99) = x v" "y (multiply v 0.99) = y v" using h by simp_all
    then have "x v = 0" "y v = 0" by (simp_all add: multiply_def Vector2_new_def)
    then show "v = Vector2_new 0 0" by (simp add: Vector2_new_def)
  qed
  with pos vel show ?thesis by auto
qed

theorem applyPhysics_zero_dt_witness:
  "\<not> isFixed ((ControlPoint_new 320 150 False)\<lparr>velocity := Vector2_new 100 (- 50)\<rparr>)
   \<and> \<not> isDragging ((ControlPoint_new 320 150 False)\<lparr>velocity := Vector2_new 100 (- 50)\<rparr>)
   \<and> velocity ((ControlPoint_new 320 150 False)\<lparr>velocity := Vector2_new 100 (- 50)\<rparr>) \<noteq> Vector2_new 0 0
   \<and> position (applyPhysics ((ControlPoint_new 320 150 False)\<lparr>velocity := Vector2_new 100 (- 50)\<rparr>) 0.08 0.92 0)
       = Vector2_new 320 150
   \<and> velocity (applyPhysics ((ControlPoint_new 320 150 False)\<lparr>velocity := Vector2_new 100 (- 50)\<rparr>) 0.08 0.92 0)
       = Vector2_new 99 (- 49.5)
   \<and> velocity (applyPhysics ((ControlPoint_new 320 150 False)\<lparr>velocity := Vector2_new 100 (- 50)\<rparr>) 0.08 0.92 0)
       \<noteq> Vector2_new 100 (- 50)"
proof -
  let ?p = "(ControlPoint_new 320 150 False)\<lparr>velocity := Vector2_new 100 (- 50)\<rparr>"
  have h1: "\<not> isFixed ?p" and h2: "\<not> isDragging ?p"
    by (simp_all add: ControlPoint_new_def)
  have h3: "velocity ?p \<noteq> Vector2_new 0 0"
    by (simp add: ControlPoint_new_def Vector2_new_def)
  have h4: "position ?p = Vector2_new 320 150" and h5: "velocity ?p = Vector2_new 100 (- 50)"
    by (simp_all add: ControlPoint_new_def)
  have h6: "multiply (Vector2_new 100 (- 50)) 0.99 = Vector2_new 99 (- 49.5)"
    by (simp add: multiply_def Vector2_new_def)
  note t = applyPhysics_zero_dt [OF h1 h2, of "0.08" "0.92"]
  from t h4 have a: "position (applyPhysics ?p 0.08 0.92 0) = Vector2_new 320 150" by metis
  from t h5 h6 have b: "velocity (applyPhysics ?p 0.08 0.92 0) = Vector2_new 99 (- 49.5)" by metis
  from t h3 h5 have c: "velocity (applyPhysics ?p 0.08 0.92 0) \<noteq> Vector2_new 100 (- 50)" by metis
  from h1 h2 h3 a b c show ?thesis by blast
qed

section \<open>Vector operations\<close>

lemma length_vec_zero_iff: "length_vec v = 0 \<longleftrightarrow> v = Vector2_new 0 0"
proof
  assume "length_vec v = 0"
  then have "x v * x v + y v * y v = 0" by (simp add: length_vec_def)
  then have "x v = 0 \<and> y v = 0" by (simp add: sum_squares_eq_zero_iff)
  then show "v = Vector2_new 0 0" by (simp add: Vector2_new_def)
next
  assume "v = Vector2_new 0 0"
  then show "length_vec v = 0" by (simp add: length_vec_def Vector2_new_def)
qed

text \<open>
  Claim C8. The operations of \<^verbatim>\<open>Vector2\<close> are total: each one has a value on every
  input, given here in closed form, and none has an error branch. \<^verbatim>\<open>normalize\<close> of the
  zero vector is (0,0), and \<^verbatim>\<open>distanceTo\<close> is the length of the difference.
\<close>

theorem Vector2_total:
  "normalize_vec (Vector2_new 0 0) = Vector2_new 0 0
   \<and> distanceTo v w = length_vec (subtract v w)
   \<and> distanceTo v w = sqrt ((x v - x w) * (x v - x w) + (y v - y w) * (y v - y w))
   \<and> 0 \<le> length_vec v
   \<and> normalize_vec v =
       (if v = Vector2_new 0 0 then Vector2_new 0 0
        else Vector2_new (x v / length_vec v) (y v / length_vec v))
   \<and> add v w = Vector2_new (x v + x w) (y v + y w)
   \<and> subtract v w = Vector2_new (x v - x w) (y v - y w)
   \<and> multiply v s = Vector2_new (x v * s) (y v * s)"
proof -
  have n0: "normalize_vec (Vector2_new 0 0) = Vector2_new 0 0"
    by (simp add: normalize_vec_def length_vec_def Vector2_new_def)
  have d: "distanceTo v w = sqrt ((x v - x w) * (x v - x w) + (y v - y w) * (y v - y w))"
    by (simp add: distanceTo_def subtract_def length_vec_def Vector2_new_def)
  have l: "0 \<le> length_vec v"
    by (simp add: length_vec_def)
  have n: "normalize_vec v =
       (if v = Vector2_new 0 0 then Vector2_new 0 0
        else Vector2_new (x v / length_vec v) (y v / length_vec v))"
    by (simp add: normalize_vec_def Let_def length_vec_zero_iff)
  from n0 d l n show ?thesis
    by (simp add: distanceTo_def add_def subtract_def multiply_def)
qed

section \<open>Curve evaluation\<close>

text \<open>
  Claim C4. For every four control points, \<^verbatim>\<open>calculatePoint(0)\<close> is the position of the
  first point and \<^verbatim>\<open>calculatePoint(1)\<close> is the position of the last one, exactly.
\<close>

theorem calculatePoint_endpoints:
  "calculatePoint (c\<lparr>points := [q0, q1, q2, q3]\<rparr>) 0 = position q0
   \<and> calculatePoint (c\<lparr>points := [q0, q1, q2, q3]\<rparr>) 1 = position q3
   \<and> calculatePoint (BezierCurve_new q0 q1 q2 q3) 0 = position q0
   \<and> calculatePoint (BezierCurve_new q0 q1 q2 q3) 1 = position q3"
  by (simp add: calculatePoint_def BezierCurve_new_def Let_def add_def multiply_def Vector2_new_def)

lemma convex4:
  fixes w0 w1 w2 w3 a0 a1 a2 a3 lo hi :: real
  assumes w: "0 \<le> w0" "0 \<le> w1" "0 \<le> w2" "0 \<le> w3" and s: "w0 + w1 + w2 + w3 = 1"
    and lo: "lo \<le> a0" "lo \<le> a1" "lo \<le> a2" "lo \<le> a3"
    and hi: "a0 \<le> hi" "a1 \<le> hi" "a2 \<le> hi" "a3 \<le> hi"
  shows "lo \<le> a0 * w0 + a1 * w1 + a2 * w2 + a3 * w3
       \<and> a0 * w0 + a1 * w1 + a2 * w2 + a3 * w3 \<le> hi"
proof -
  have l: "lo * w0 \<le> a0 * w0" "lo * w1 \<le> a1 * w1" "lo * w2 \<le> a2 * w2" "lo * w3 \<le> a3 * w3"
    using w lo by (simp_all add: mult_right_mono)
  have h: "a0 * w0 \<le> hi * w0" "a1 * w1 \<le> hi * w1" "a2 * w2 \<le> hi * w2" "a3 * w3 \<le> hi * w3"
    using w hi by (simp_all add: mult_right_mono)
  have e1: "lo * w0 + lo * w1 + lo * w2 + lo * w3 = lo"
    using s by (metis distrib_left mult.right_neutral)
  have e2: "hi * w0 + hi * w1 + hi * w2 + hi * w3 = hi"
    using s by (metis distrib_left mult.right_neutral)
  from l h e1 e2 show ?thesis by linarith
qed

lemma bernstein_nonneg:
  fixes t :: real
  assumes "0 \<le> t" "t \<le> 1"
  shows "0 \<le> (1 - t) * (1 - t) * (1 - t)" "0 \<le> 3 * ((1 - t) * (1 - t)) * t"
    "0 \<le> 3 * (1 - t) * (t * t)" "0 \<le> t * t * t"
  using assms by simp_all

lemma bernstein_sum:
  fixes t :: real
  shows "(1 - t) * (1 - t) * (1 - t) + 3 * ((1 - t) * (1 - t)) * t + 3 * (1 - t) * (t * t) + t * t * t = 1"
  by (simp add: algebra_simps)

lemma Min4_le:
  fixes a0 a1 a2 a3 :: real
  shows "Min {a0, a1, a2, a3} \<le> a0" "Min {a0, a1, a2, a3} \<le> a1"
    "Min {a0, a1, a2, a3} \<le> a2" "Min {a0, a1, a2, a3} \<le> a3"
  by simp_all

lemma Max4_ge:
  fixes a0 a1 a2 a3 :: real
  shows "a0 \<le> Max {a0, a1, a2, a3}" "a1 \<le> Max {a0, a1, a2, a3}"
    "a2 \<le> Max {a0, a1, a2, a3}" "a3 \<le> Max {a0, a1, a2, a3}"
  by simp_all

lemma calculatePoint_points:
  "calculatePoint (c\<lparr>points := [q0, q1, q2, q3]\<rparr>) t =
     Vector2_new
       (x (position q0) * ((1 - t) * (1 - t) * (1 - t))
        + x (position q1) * (3 * ((1 - t) * (1 - t)) * t)
        + x (position q2) * (3 * (1 - t) * (t * t))
        + x (position q3) * (t * t * t))
       (y (position q0) * ((1 - t) * (1 - t) * (1 - t))
        + y (position q1) * (3 * ((1 - t) * (1 - t)) * t)
        + y (position q2) * (3 * (1 - t) * (t * t))
        + y (position q3) * (t * t * t))"
  by (simp add: calculatePoint_def Let_def add_def multiply_def Vector2_new_def)

lemma calculatePoint_convex:
  assumes "0 \<le> t" and "t \<le> 1"
  shows "0 \<le> (1 - t) * (1 - t) * (1 - t) \<and> 0 \<le> 3 * ((1 - t) * (1 - t)) * t
       \<and> 0 \<le> 3 * (1 - t) * (t * t) \<and> 0 \<le> t * t * t
       \<and> (1 - t) * (1 - t) * (1 - t) + 3 * ((1 - t) * (1 - t)) * t
           + 3 * (1 - t) * (t * t) + t * t * t = 1
       \<and> calculatePoint (c\<lparr>points := [q0, q1, q2, q3]\<rparr>) t =
           Vector2_new
             (x (position q0) * ((1 - t) * (1 - t) * (1 - t))
              + x (position q1) * (3 * ((1 - t) * (1 - t)) * t)
              + x (position q2) * (3 * (1 - t) * (t * t))
              + x (position q3) * (t * t * t))
             (y (position q0) * ((1 - t) * (1 - t) * (1 - t))
              + y (position q1) * (3 * ((1 - t) * (1 - t)) * t)
              + y (position q2) * (3 * (1 - t) * (t * t))
              + y (position q3) * (t * t * t))
       \<and> Min {x (position q0), x (position q1), x (position q2), x (position q3)}
           \<le> x (calculatePoint (c\<lparr>points := [q0, q1, q2, q3]\<rparr>) t)
       \<and> x (calculatePoint (c\<lparr>points := [q0, q1, q2, q3]\<rparr>) t)
           \<le> Max {x (position q0), x (position q1), x (position q2), x (position q3)}
       \<and> Min {y (position q0), y (position q1), y (position q2), y (position q3)}
           \<le> y (calculatePoint (c\<lparr>points := [q0, q1, q2, q3]\<rparr>) t)
       \<and> y (calculatePoint (c\<lparr>points := [q0, q1, q2, q3]\<rparr>) t)
           \<le> Max {y (position q0), y (position q1), y (position q2), y (position q3)}"
proof -
  let ?c = "c\<lparr>points := [q0, q1, q2, q3]\<rparr>"
  note nn = bernstein_nonneg [OF assms]
  have px: "x (calculatePoint ?c t) =
              x (position q0) * ((1 - t) * (1 - t) * (1 - t))
              + x (position q1) * (3 * ((1 - t) * (1 - t)) * t)
              + x (position q2) * (3 * (1 - t) * (t * t))
              + x (position q3) * (t * t * t)"
    by (simp only: calculatePoint_points Vector2_new_def Vector2.select_convs)
  have py: "y (calculatePoint ?c t) =
              y (position q0) * ((1 - t) * (1 - t) * (1 - t))
              + y (position q1) * (3 * ((1 - t) * (1 - t)) * t)
              + y (position q2) * (3 * (1 - t) * (t * t))
              + y (position q3) * (t * t * t)"
    by (simp only: calculatePoint_points Vector2_new_def Vector2.select_convs)
  have bx: "Min {x (position q0), x (position q1), x (position q2), x (position q3)}
              \<le> x (calculatePoint ?c t)
          \<and> x (calculatePoint ?c t)
              \<le> Max {x (position q0), x (position q1), x (position q2), x (position q3)}"
    unfolding px by (rule convex4 [OF nn bernstein_sum Min4_le Max4_ge])
  have by': "Min {y (position q0), y (position q1), y (position q2), y (position q3)}
              \<le> y (calculatePoint ?c t)
          \<and> y (calculatePoint ?c t)
              \<le> Max {y (position q0), y (position q1), y (position q2), y (position q3)}"
    unfolding py by (rule convex4 [OF nn bernstein_sum Min4_le Max4_ge])
  show ?thesis
    using nn bernstein_sum [of t] calculatePoint_points [where c = c and t = t] bx by'
    by (intro conjI) (simp_all only: simp_thms)
qed

lemma calculatePoint_closed:
  "calculatePoint c t =
     Vector2_new
       (x (position (points c ! 0)) * ((1 - t) * (1 - t) * (1 - t))
         + x (position (points c ! 1)) * (3 * ((1 - t) * (1 - t)) * t)
         + x (position (points c ! 2)) * (3 * (1 - t) * (t * t))
         + x (position (points c ! 3)) * (t * t * t))
       (y (position (points c ! 0)) * ((1 - t) * (1 - t) * (1 - t))
         + y (position (points c ! 1)) * (3 * ((1 - t) * (1 - t)) * t)
         + y (position (points c ! 2)) * (3 * (1 - t) * (t * t))
         + y (position (points c ! 3)) * (t * t * t))"
  by (simp add: calculatePoint_def Let_def add_def multiply_def Vector2_new_def)


section \<open>Curve evaluation in binary64\<close>

lemma round_even_error: "\<bar>of_int (round_even q) - q\<bar> \<le> 1 / 2"
proof -
  have "of_int \<lfloor>q\<rfloor> \<le> q" "q < of_int \<lfloor>q\<rfloor> + 1" by linarith+
  then show ?thesis by (auto simp: round_even_def Let_def)
qed

lemma round_even_nonneg: "0 \<le> q \<Longrightarrow> 0 \<le> round_even q"
  by (auto simp: round_even_def Let_def)

lemma round_even_near:
  assumes "\<bar>q - of_int n\<bar> < 1 / 2"
  shows "round_even q = n"
proof -
  have a: "of_int \<lfloor>q\<rfloor> \<le> q" "q < of_int \<lfloor>q\<rfloor> + 1" by linarith+
  from assms have b: "q < of_int n + 1 / 2" "of_int n - 1 / 2 < q" by linarith+
  show ?thesis
  proof (cases "q - of_int \<lfloor>q\<rfloor> < 1 / 2")
    case True
    with a b have "of_int n - 1 < (of_int \<lfloor>q\<rfloor> :: real)" "(of_int \<lfloor>q\<rfloor> :: real) < of_int n + 1"
      by linarith+
    then have "\<lfloor>q\<rfloor> = n" by linarith
    with True show ?thesis by (simp add: round_even_def Let_def)
  next
    case False
    with a b have "of_int n - 2 < (of_int \<lfloor>q\<rfloor> :: real)" "(of_int \<lfloor>q\<rfloor> :: real) < of_int n"
      by linarith+
    then have f: "\<lfloor>q\<rfloor> = n - 1" by linarith
    with b have "1 / 2 < q - of_int \<lfloor>q\<rfloor>" by simp
    with f show ?thesis by (simp add: round_even_def Let_def)
  qed
qed

lemma pow2_floor_log: 
  assumes "v \<noteq> 0"
  shows "2 powi \<lfloor>log 2 \<bar>v\<bar>\<rfloor> \<le> \<bar>v\<bar>"
proof -
  have "(2::real) powr of_int \<lfloor>log 2 \<bar>v\<bar>\<rfloor> \<le> 2 powr log 2 \<bar>v\<bar>"
    by (intro powr_mono) simp_all
  also have "\<dots> = \<bar>v\<bar>" using assms by simp
  finally show ?thesis by (simp add: powr_real_of_int')
qed

lemma fl_error: "\<bar>fl v - v\<bar> \<le> max (\<bar>v\<bar> / 2 ^ 53) (1 / 2 ^ 1075)"
proof (cases "v = 0")
  case True
  then show ?thesis by (simp add: fl_def)
next
  case False
  define e where "e = ulp_exp v"
  define q where "q = v / 2 powi e"
  have pos: "(0::real) < 2 powi e" by (simp add: zero_less_power_int)
  have v: "v = q * 2 powi e" using pos by (simp add: q_def)
  have "fl v - v = (of_int (round_even q) - q) * 2 powi e"
    using False by (simp add: fl_def e_def q_def algebra_simps)
  then have "\<bar>fl v - v\<bar> = \<bar>of_int (round_even q) - q\<bar> * 2 powi e"
    using pos by (simp add: abs_mult)
  also have "\<dots> \<le> 1 / 2 * 2 powi e"
    using round_even_error [of q] pos by (intro mult_right_mono) simp_all
  finally have b: "\<bar>fl v - v\<bar> \<le> 2 powi e / 2" by simp
  show ?thesis
  proof (cases "\<lfloor>log 2 \<bar>v\<bar>\<rfloor> - 52 \<ge> - 1074")
    case True
    then have "e = \<lfloor>log 2 \<bar>v\<bar>\<rfloor> - 52" by (simp add: e_def ulp_exp_def)
    then have "(2::real) powi e = 2 powi \<lfloor>log 2 \<bar>v\<bar>\<rfloor> / 2 ^ 52"
      by (simp add: power_int_diff)
    with pow2_floor_log [OF False] have "(2::real) powi e \<le> \<bar>v\<bar> / 2 ^ 52"
      by (simp add: divide_right_mono)
    with b have "\<bar>fl v - v\<bar> \<le> \<bar>v\<bar> / 2 ^ 53" by simp
    then show ?thesis by (simp add: le_max_iff_disj)
  next
    case False
    then have "e = - 1074" by (simp add: e_def ulp_exp_def)
    then have "(2::real) powi e = 1 / 2 ^ 1074" by (simp add: power_int_minus field_simps)
    with b have "\<bar>fl v - v\<bar> \<le> 1 / 2 ^ 1075" by simp
    then show ?thesis by (simp add: le_max_iff_disj)
  qed
qed

lemma fl_nonneg: "0 \<le> v \<Longrightarrow> 0 \<le> fl v"
  by (simp add: fl_def round_even_nonneg zero_less_power_int less_imp_le)

lemma fl_err_bound:
  assumes "\<bar>v\<bar> \<le> B" and "1 \<le> B"
  shows "\<bar>fl v - v\<bar> \<le> B / 2 ^ 53"
proof -
  have "\<bar>v\<bar> / 2 ^ 53 \<le> B / 2 ^ 53" using assms(1) by (simp add: divide_right_mono)
  moreover have "(1::real) / 2 ^ 1075 \<le> 1 / 2 ^ 53" by (simp add: field_simps)
  moreover have "(1::real) / 2 ^ 53 \<le> B / 2 ^ 53" using assms(2) by (simp add: divide_right_mono)
  ultimately show ?thesis using fl_error [of v] by linarith
qed

lemma fl_eval:
  assumes "v \<noteq> 0" and "2 powi E \<le> \<bar>v\<bar>" and "\<bar>v\<bar> < 2 powi (E + 1)"
    and "e = max (E - 52) (- 1074)" and "\<bar>v / 2 powi e - of_int n\<bar> < 1 / 2"
  shows "fl v = of_int n * 2 powi e"
proof -
  have p1: "2 powr real_of_int E = (2::real) powi E"
    and p2: "2 powr real_of_int (E + 1) = (2::real) powi (E + 1)"
    by (rule powr_real_of_int'; simp)+
  have "0 < \<bar>v\<bar>" using assms(1) by simp
  then have "(\<lfloor>log 2 \<bar>v\<bar>\<rfloor> = E) =
      (2 powr real_of_int E \<le> \<bar>v\<bar> \<and> \<bar>v\<bar> < 2 powr real_of_int (E + 1))"
    by (rule floor_log_eq_powr_iff) simp
  then have "\<lfloor>log 2 \<bar>v\<bar>\<rfloor> = E"
    unfolding p1 p2 using assms(2,3) by blast
  then have "ulp_exp v = e" by (simp add: ulp_exp_def assms(4))
  then show ?thesis
    using assms(1) round_even_near [OF assms(5)] by (simp add: fl_def)
qed

lemma round_even_tie:
  assumes "q = of_int n + 1 / 2"
  shows "round_even q = (if even n then n else n + 1)"
proof -
  have "\<lfloor>q\<rfloor> = n" unfolding assms by linarith
  then show ?thesis by (simp add: round_even_def Let_def assms)
qed

lemma fl_eval_tie:
  assumes "v \<noteq> 0" and "2 powi E \<le> \<bar>v\<bar>" and "\<bar>v\<bar> < 2 powi (E + 1)"
    and "e = max (E - 52) (- 1074)" and "v / 2 powi e = of_int n + 1 / 2"
  shows "fl v = of_int (if even n then n else n + 1) * 2 powi e"
proof -
  have p1: "2 powr real_of_int E = (2::real) powi E"
    and p2: "2 powr real_of_int (E + 1) = (2::real) powi (E + 1)"
    by (rule powr_real_of_int'; simp)+
  have "0 < \<bar>v\<bar>" using assms(1) by simp
  then have "(\<lfloor>log 2 \<bar>v\<bar>\<rfloor> = E) =
      (2 powr real_of_int E \<le> \<bar>v\<bar> \<and> \<bar>v\<bar> < 2 powr real_of_int (E + 1))"
    by (rule floor_log_eq_powr_iff) simp
  then have "\<lfloor>log 2 \<bar>v\<bar>\<rfloor> = E"
    unfolding p1 p2 using assms(2,3) by blast
  then have "ulp_exp v = e" by (simp add: ulp_exp_def assms(4))
  then show ?thesis
    using assms(1) round_even_tie [OF assms(5)] by (simp add: fl_def)
qed

lemma fl_u: "fl (262141 / 262144) = 262141 / 262144"
proof -
  have "fl (262141 / 262144) = of_int (9007096175525888) * 2 powi (- 53)"
    by (rule fl_eval [where E = "- 1"]) simp_all
  then show ?thesis by simp
qed

lemma fl_tt: "fl (9 / 68719476736) = 9 / 68719476736"
proof -
  have "fl (9 / 68719476736) = of_int (5066549580791808) * 2 powi (- 85)"
    by (rule fl_eval [where E = "- 33"]) simp_all
  then show ?thesis by simp
qed

lemma fl_uu: "fl (68717903881 / 68719476736) = 68717903881 / 68719476736"
proof -
  have "fl (68717903881 / 68719476736) = of_int (9006993097490432) * 2 powi (- 53)"
    by (rule fl_eval [where E = "- 1"]) simp_all
  then show ?thesis by simp
qed

lemma fl_uuu: "fl (18013780041269221 / 18014398509481984) = 4503445010317305 / 4503599627370496"
proof -
  have "fl (18013780041269221 / 18014398509481984) = of_int (if even (9006890020634610::int) then 9006890020634610 else 9006890020634610 + 1) * 2 powi (- 53)"
    by (rule fl_eval_tie [where E = "- 1"]) simp_all
  then show ?thesis by simp
qed

lemma fl_ttt: "fl (27 / 18014398509481984) = 27 / 18014398509481984"
proof -
  have "fl (27 / 18014398509481984) = of_int (7599824371187712) * 2 powi (- 102)"
    by (rule fl_eval [where E = "- 50"]) simp_all
  then show ?thesis by simp
qed

lemma fl_uu3: "fl (206153711643 / 68719476736) = 206153711643 / 68719476736"
proof -
  have "fl (206153711643 / 68719476736) = of_int (6755244823117824) * 2 powi (- 51)"
    by (rule fl_eval [where E = "1"]) simp_all
  then show ?thesis by simp
qed

lemma fl_w1: "fl (618461134929 / 18014398509481984) = 618461134929 / 18014398509481984"
proof -
  have "fl (618461134929 / 18014398509481984) = of_int (5066433617338368) * 2 powi (- 67)"
    by (rule fl_eval [where E = "- 15"]) simp_all
  then show ?thesis by simp
qed

lemma fl_u3: "fl (786423 / 262144) = 786423 / 262144"
proof -
  have "fl (786423 / 262144) = of_int (6755322131644416) * 2 powi (- 51)"
    by (rule fl_eval [where E = "1"]) simp_all
  then show ?thesis by simp
qed

lemma fl_w2: "fl (7077807 / 18014398509481984) = 7077807 / 18014398509481984"
proof -
  have "fl (7077807 / 18014398509481984) = of_int (7599737398099968) * 2 powi (- 84)"
    by (rule fl_eval [where E = "- 32"]) simp_all
  then show ?thesis by simp
qed

lemma fl_a0: "fl (22517225051586525 / 4503599627370496) = 5629306262896631 / 1125899906842624"
proof -
  have "fl (22517225051586525 / 4503599627370496) = of_int (5629306262896631) * 2 powi (- 50)"
    by (rule fl_eval [where E = "2"]) simp_all
  then show ?thesis by simp
qed

lemma fl_a1: "fl (3092305674645 / 18014398509481984) = 3092305674645 / 18014398509481984"
proof -
  have "fl (3092305674645 / 18014398509481984) = of_int (6333042021672960) * 2 powi (- 65)"
    by (rule fl_eval [where E = "- 13"]) simp_all
  then show ?thesis by simp
qed

lemma fl_a2: "fl (35389035 / 18014398509481984) = 35389035 / 18014398509481984"
proof -
  have "fl (35389035 / 18014398509481984) = of_int (4749835873812480) * 2 powi (- 81)"
    by (rule fl_eval [where E = "- 29"]) simp_all
  then show ?thesis by simp
qed

lemma fl_a3: "fl (135 / 18014398509481984) = 135 / 18014398509481984"
proof -
  have "fl (135 / 18014398509481984) = of_int (4749890231992320) * 2 powi (- 99)"
    by (rule fl_eval [where E = "- 47"]) simp_all
  then show ?thesis by simp
qed

lemma fl_s1: "fl (90071992512020741 / 18014398509481984) = 351843720750081 / 70368744177664"
proof -
  have "fl (90071992512020741 / 18014398509481984) = of_int (5629499532001296) * 2 powi (- 50)"
    by (rule fl_eval [where E = "2"]) simp_all
  then show ?thesis by simp
qed

lemma fl_s2: "fl (90071992547409771 / 18014398509481984) = 5629499534213111 / 1125899906842624"
proof -
  have "fl (90071992547409771 / 18014398509481984) = of_int (5629499534213111) * 2 powi (- 50)"
    by (rule fl_eval [where E = "2"]) simp_all
  then show ?thesis by simp
qed

lemma fl_s3: "fl (90071992547409911 / 18014398509481984) = 5629499534213119 / 1125899906842624"
proof -
  have "fl (90071992547409911 / 18014398509481984) = of_int (5629499534213119) * 2 powi (- 50)"
    by (rule fl_eval [where E = "2"]) simp_all
  then show ?thesis by simp
qed

lemma fl_mul_step:
  fixes a a' b b' :: real
  assumes a: "\<bar>a' - a\<bar> \<le> ea" and b: "\<bar>b' - b\<bar> \<le> eb" and A: "\<bar>a\<bar> \<le> A"
    and A': "\<bar>a'\<bar> \<le> A'" and B': "\<bar>b'\<bar> \<le> B'" and one: "1 \<le> A' * B'"
  shows "\<bar>fl (a' * b') - a * b\<bar> \<le> A' * B' / 2 ^ 53 + (ea * B' + A * eb)"
proof -
  have nn: "0 \<le> ea" "0 \<le> eb" "0 \<le> A" "0 \<le> A'" "0 \<le> B'"
    using a b A A' B' by linarith+
  have "\<bar>a' * b'\<bar> \<le> A' * B'"
    unfolding abs_mult by (intro mult_mono A' B' nn) simp_all
  then have f: "\<bar>fl (a' * b') - a' * b'\<bar> \<le> A' * B' / 2 ^ 53"
    using one by (rule fl_err_bound)
  have "a' * b' - a * b = (a' - a) * b' + a * (b' - b)" by (simp add: algebra_simps)
  also have "\<bar>\<dots>\<bar> \<le> \<bar>(a' - a) * b'\<bar> + \<bar>a * (b' - b)\<bar>" by (rule abs_triangle_ineq)
  also have "\<dots> \<le> ea * B' + A * eb"
    unfolding abs_mult by (intro add_mono mult_mono a b A B' nn) simp_all
  finally have "\<bar>a' * b' - a * b\<bar> \<le> ea * B' + A * eb" .
  with f show ?thesis by linarith
qed

lemma fl_add_step:
  fixes a a' b b' :: real
  assumes a: "\<bar>a' - a\<bar> \<le> ea" and b: "\<bar>b' - b\<bar> \<le> eb" and S: "\<bar>a + b\<bar> \<le> S"
    and one: "1 \<le> S + ea + eb"
  shows "\<bar>fl (a' + b') - (a + b)\<bar> \<le> (S + ea + eb) / 2 ^ 53 + (ea + eb)"
proof -
  have d: "\<bar>(a' + b') - (a + b)\<bar> \<le> ea + eb" using a b by linarith
  with S have "\<bar>a' + b'\<bar> \<le> S + ea + eb" by linarith
  then have "\<bar>fl (a' + b') - (a' + b')\<bar> \<le> (S + ea + eb) / 2 ^ 53"
    using one by (rule fl_err_bound)
  with d show ?thesis by linarith
qed

lemma abs_bound:
  fixes a a' :: real
  shows "\<bar>a' - a\<bar> \<le> e \<Longrightarrow> \<bar>a\<bar> \<le> A \<Longrightarrow> A + e \<le> B \<Longrightarrow> \<bar>a'\<bar> \<le> B"
  by linarith

lemma weights_f64_error:
  fixes t :: real
  assumes t: "0 \<le> t" "t \<le> 1"
  shows "\<bar>fl (fl (fl (1 - t) * fl (1 - t)) * fl (1 - t)) - (1 - t) * (1 - t) * (1 - t)\<bar> \<le> 7 / 2 ^ 53"
    and "\<bar>fl (fl (3 * fl (fl (1 - t) * fl (1 - t))) * t) - 3 * ((1 - t) * (1 - t)) * t\<bar> \<le> 20 / 2 ^ 53"
    and "\<bar>fl (fl (3 * fl (1 - t)) * fl (t * t)) - 3 * (1 - t) * (t * t)\<bar> \<le> 14 / 2 ^ 53"
    and "\<bar>fl (fl (t * t) * t) - t * t * t\<bar> \<le> 3 / 2 ^ 53"
proof -
  define U where "U = 1 - t"
  define u where "u = fl (1 - t)"
  define tt where "tt = fl (t * t)"
  define uu where "uu = fl (u * u)"
  have U: "0 \<le> U" "U \<le> 1" "\<bar>U\<bar> \<le> 1" using t by (simp_all add: U_def)
  have ta: "\<bar>t\<bar> \<le> 1" using t by simp
  have UU: "\<bar>U * U\<bar> \<le> 1" using U by (simp add: abs_mult mult_le_one)
  have T2: "\<bar>t * t\<bar> \<le> 1" using t by (simp add: abs_mult mult_le_one)
  have "\<bar>fl (1 - t) - (1 - t)\<bar> \<le> 1 / 2 ^ 53"
    using U(3) by (intro fl_err_bound) (simp_all add: U_def)
  then have eu: "\<bar>u - U\<bar> \<le> 1 / 2 ^ 53" by (simp add: u_def U_def)
  have bu: "\<bar>u\<bar> \<le> 1001 / 1000" by (rule abs_bound [OF eu U(3)]) simp
  have ett: "\<bar>tt - t * t\<bar> \<le> 1 / 2 ^ 53"
    unfolding tt_def using T2 by (intro fl_err_bound) simp_all
  have btt: "\<bar>tt\<bar> \<le> 1001 / 1000" by (rule abs_bound [OF ett T2]) simp
  have "\<bar>fl (u * u) - U * U\<bar> \<le> 1001 / 1000 * (1001 / 1000) / 2 ^ 53
        + (1 / 2 ^ 53 * (1001 / 1000) + 1 * (1 / 2 ^ 53))"
    by (rule fl_mul_step [OF eu eu U(3) bu bu]) simp
  then have euu: "\<bar>uu - U * U\<bar> \<le> 4 / 2 ^ 53" by (simp add: uu_def)
  have buu: "\<bar>uu\<bar> \<le> 1001 / 1000" by (rule abs_bound [OF euu UU]) simp
  have "\<bar>fl (uu * u) - U * U * U\<bar> \<le> 1001 / 1000 * (1001 / 1000) / 2 ^ 53
        + (4 / 2 ^ 53 * (1001 / 1000) + 1 * (1 / 2 ^ 53))"
    by (rule fl_mul_step [OF euu eu UU buu bu]) simp
  then have w0: "\<bar>fl (uu * u) - U * U * U\<bar> \<le> 7 / 2 ^ 53" by simp
  have e0: "\<bar>t - t\<bar> \<le> 0" by simp
  have "\<bar>fl (tt * t) - t * t * t\<bar> \<le> 1001 / 1000 * 1 / 2 ^ 53
        + (1 / 2 ^ 53 * 1 + 1 * 0)"
    by (rule fl_mul_step [OF ett e0 T2 btt ta]) simp
  then have w3: "\<bar>fl (tt * t) - t * t * t\<bar> \<le> 3 / 2 ^ 53" by simp
  have e3: "\<bar>(3::real) - 3\<bar> \<le> 0" and b3: "\<bar>3::real\<bar> \<le> 3" by simp_all
  have "\<bar>fl (3 * uu) - 3 * (U * U)\<bar> \<le> 3 * (1001 / 1000) / 2 ^ 53
        + (0 * (1001 / 1000) + 3 * (4 / 2 ^ 53))"
    by (rule fl_mul_step [OF e3 euu b3 b3 buu]) simp
  then have ec1: "\<bar>fl (3 * uu) - 3 * (U * U)\<bar> \<le> 16 / 2 ^ 53" by simp
  have UU3: "\<bar>3 * (U * U)\<bar> \<le> 3" using UU by simp
  have bc1: "\<bar>fl (3 * uu)\<bar> \<le> 3001 / 1000" by (rule abs_bound [OF ec1 UU3]) simp
  have "\<bar>fl (fl (3 * uu) * t) - 3 * (U * U) * t\<bar> \<le> 3001 / 1000 * 1 / 2 ^ 53
        + (16 / 2 ^ 53 * 1 + 3 * 0)"
    by (rule fl_mul_step [OF ec1 e0 UU3 bc1 ta]) simp
  then have w1: "\<bar>fl (fl (3 * uu) * t) - 3 * (U * U) * t\<bar> \<le> 20 / 2 ^ 53" by simp
  have "\<bar>fl (3 * u) - 3 * U\<bar> \<le> 3 * (1001 / 1000) / 2 ^ 53
        + (0 * (1001 / 1000) + 3 * (1 / 2 ^ 53))"
    by (rule fl_mul_step [OF e3 eu b3 b3 bu]) simp
  then have ec2: "\<bar>fl (3 * u) - 3 * U\<bar> \<le> 7 / 2 ^ 53" by simp
  have U3: "\<bar>3 * U\<bar> \<le> 3" using U by simp
  have bc2: "\<bar>fl (3 * u)\<bar> \<le> 3001 / 1000" by (rule abs_bound [OF ec2 U3]) simp
  have "\<bar>fl (fl (3 * u) * tt) - 3 * U * (t * t)\<bar> \<le> 3001 / 1000 * (1001 / 1000) / 2 ^ 53
        + (7 / 2 ^ 53 * (1001 / 1000) + 3 * (1 / 2 ^ 53))"
    by (rule fl_mul_step [OF ec2 ett U3 bc2 btt]) simp
  then have w2: "\<bar>fl (fl (3 * u) * tt) - 3 * U * (t * t)\<bar> \<le> 14 / 2 ^ 53" by simp
  show "\<bar>fl (fl (fl (1 - t) * fl (1 - t)) * fl (1 - t)) - (1 - t) * (1 - t) * (1 - t)\<bar> \<le> 7 / 2 ^ 53"
    using w0 by (simp add: uu_def u_def U_def)
  show "\<bar>fl (fl (3 * fl (fl (1 - t) * fl (1 - t))) * t) - 3 * ((1 - t) * (1 - t)) * t\<bar> \<le> 20 / 2 ^ 53"
    using w1 by (simp add: uu_def u_def U_def)
  show "\<bar>fl (fl (3 * fl (1 - t)) * fl (t * t)) - 3 * (1 - t) * (t * t)\<bar> \<le> 14 / 2 ^ 53"
    using w2 by (simp add: tt_def u_def U_def)
  show "\<bar>fl (fl (t * t) * t) - t * t * t\<bar> \<le> 3 / 2 ^ 53"
    using w3 by (simp add: tt_def)
qed

lemma combine_f64_error:
  fixes w0 w1 w2 w3 W0 W1 W2 W3 c0 c1 c2 c3 M :: real
  assumes W: "0 \<le> W0" "0 \<le> W1" "0 \<le> W2" "0 \<le> W3" and sum: "W0 + W1 + W2 + W3 = 1"
    and e: "\<bar>w0 - W0\<bar> \<le> 7 / 2 ^ 53" "\<bar>w1 - W1\<bar> \<le> 20 / 2 ^ 53"
      "\<bar>w2 - W2\<bar> \<le> 14 / 2 ^ 53" "\<bar>w3 - W3\<bar> \<le> 3 / 2 ^ 53"
    and c: "\<bar>c0\<bar> \<le> M" "\<bar>c1\<bar> \<le> M" "\<bar>c2\<bar> \<le> M" "\<bar>c3\<bar> \<le> M"
    and M: "1 \<le> M"
  shows "\<bar>fl (fl (fl (fl (c0 * w0) + fl (c1 * w1)) + fl (c2 * w2)) + fl (c3 * w3))
           - (c0 * W0 + c1 * W1 + c2 * W2 + c3 * W3)\<bar> \<le> 64 * M / 2 ^ 53"
proof -
  have Wa: "\<bar>W0\<bar> \<le> 1" "\<bar>W1\<bar> \<le> 1" "\<bar>W2\<bar> \<le> 1" "\<bar>W3\<bar> \<le> 1"
    using W sum by simp_all
  have bw: "\<bar>w0\<bar> \<le> 1001 / 1000" "\<bar>w1\<bar> \<le> 1001 / 1000" "\<bar>w2\<bar> \<le> 1001 / 1000"
    "\<bar>w3\<bar> \<le> 1001 / 1000"
    by (rule abs_bound [OF e(1) Wa(1)], simp, rule abs_bound [OF e(2) Wa(2)], simp,
        rule abs_bound [OF e(3) Wa(3)], simp, rule abs_bound [OF e(4) Wa(4)], simp)
  have z: "\<bar>c0 - c0\<bar> \<le> 0" "\<bar>c1 - c1\<bar> \<le> 0" "\<bar>c2 - c2\<bar> \<le> 0" "\<bar>c3 - c3\<bar> \<le> 0"
    by simp_all
  have one: "1 \<le> M * (1001 / 1000)" using M by simp
  have a0: "\<bar>fl (c0 * w0) - c0 * W0\<bar> \<le> 9 * M / 2 ^ 53"
    using fl_mul_step [OF z(1) e(1) c(1) c(1) bw(1) one] M by simp
  have a1: "\<bar>fl (c1 * w1) - c1 * W1\<bar> \<le> 22 * M / 2 ^ 53"
    using fl_mul_step [OF z(2) e(2) c(2) c(2) bw(2) one] M by simp
  have a2: "\<bar>fl (c2 * w2) - c2 * W2\<bar> \<le> 16 * M / 2 ^ 53"
    using fl_mul_step [OF z(3) e(3) c(3) c(3) bw(3) one] M by simp
  have a3: "\<bar>fl (c3 * w3) - c3 * W3\<bar> \<le> 5 * M / 2 ^ 53"
    using fl_mul_step [OF z(4) e(4) c(4) c(4) bw(4) one] M by simp
  have p: "\<bar>c0 * W0\<bar> \<le> M * W0" "\<bar>c1 * W1\<bar> \<le> M * W1" "\<bar>c2 * W2\<bar> \<le> M * W2"
    "\<bar>c3 * W3\<bar> \<le> M * W3"
    using W c by (simp_all add: abs_mult mult_right_mono)
  have MW: "0 \<le> M * W0" "0 \<le> M * W1" "0 \<le> M * W2" "0 \<le> M * W3"
    using W M by simp_all
  have "M * (W0 + W1 + W2 + W3) = M" using sum by simp
  then have tot: "M * W0 + M * W1 + M * W2 + M * W3 = M" by (simp add: algebra_simps)
  have S1: "\<bar>c0 * W0 + c1 * W1\<bar> \<le> M" using p MW tot by linarith
  have S2: "\<bar>(c0 * W0 + c1 * W1) + c2 * W2\<bar> \<le> M" using p MW tot by linarith
  have S3: "\<bar>((c0 * W0 + c1 * W1) + c2 * W2) + c3 * W3\<bar> \<le> M" using p MW tot by linarith
  have s1: "\<bar>fl (fl (c0 * w0) + fl (c1 * w1)) - (c0 * W0 + c1 * W1)\<bar> \<le> 33 * M / 2 ^ 53"
    using fl_add_step [OF a0 a1 S1] M by simp
  have s2: "\<bar>fl (fl (fl (c0 * w0) + fl (c1 * w1)) + fl (c2 * w2))
      - ((c0 * W0 + c1 * W1) + c2 * W2)\<bar> \<le> 51 * M / 2 ^ 53"
    using fl_add_step [OF s1 a2 S2] M by simp
  have s3: "\<bar>fl (fl (fl (fl (c0 * w0) + fl (c1 * w1)) + fl (c2 * w2)) + fl (c3 * w3))
      - (((c0 * W0 + c1 * W1) + c2 * W2) + c3 * W3)\<bar> \<le> 58 * M / 2 ^ 53"
    using fl_add_step [OF s2 a3 S3] M by simp
  have "58 * M / 2 ^ 53 \<le> 64 * M / 2 ^ 53" using M by simp
  with s3 show ?thesis by linarith
qed

lemma calculatePoint_f64_x:
  "x (calculatePoint_f64 c t) =
     fl (fl (fl (fl (x (position (points c ! 0)) * fl (fl (fl (1 - t) * fl (1 - t)) * fl (1 - t)))
             + fl (x (position (points c ! 1)) * fl (fl (3 * fl (fl (1 - t) * fl (1 - t))) * t)))
           + fl (x (position (points c ! 2)) * fl (fl (3 * fl (1 - t)) * fl (t * t))))
         + fl (x (position (points c ! 3)) * fl (fl (t * t) * t)))"
  by (simp add: calculatePoint_f64_def Let_def add_f64_def multiply_f64_def Vector2_new_def)

lemma calculatePoint_f64_y:
  "y (calculatePoint_f64 c t) =
     fl (fl (fl (fl (y (position (points c ! 0)) * fl (fl (fl (1 - t) * fl (1 - t)) * fl (1 - t)))
             + fl (y (position (points c ! 1)) * fl (fl (3 * fl (fl (1 - t) * fl (1 - t))) * t)))
           + fl (y (position (points c ! 2)) * fl (fl (3 * fl (1 - t)) * fl (t * t))))
         + fl (y (position (points c ! 3)) * fl (fl (t * t) * t)))"
  by (simp add: calculatePoint_f64_def Let_def add_f64_def multiply_f64_def Vector2_new_def)

lemma weights_f64_nonneg:
  fixes t :: real
  assumes "0 \<le> t" "t \<le> 1"
  shows "0 \<le> fl (fl (fl (1 - t) * fl (1 - t)) * fl (1 - t))" "0 \<le> fl (fl (3 * fl (fl (1 - t) * fl (1 - t))) * t)"
    "0 \<le> fl (fl (3 * fl (1 - t)) * fl (t * t))" "0 \<le> fl (fl (t * t) * t)"
  using assms by (simp_all add: fl_nonneg)

lemma calculatePoint_f64_error:
  assumes t: "0 \<le> t" "t \<le> 1" and M: "1 \<le> M"
    and c: "\<bar>x (position (points c ! 0))\<bar> \<le> M" "\<bar>x (position (points c ! 1))\<bar> \<le> M"
      "\<bar>x (position (points c ! 2))\<bar> \<le> M" "\<bar>x (position (points c ! 3))\<bar> \<le> M"
      "\<bar>y (position (points c ! 0))\<bar> \<le> M" "\<bar>y (position (points c ! 1))\<bar> \<le> M"
      "\<bar>y (position (points c ! 2))\<bar> \<le> M" "\<bar>y (position (points c ! 3))\<bar> \<le> M"
  shows "\<bar>x (calculatePoint_f64 c t) - x (calculatePoint c t)\<bar> \<le> 64 * M / 2 ^ 53"
    and "\<bar>y (calculatePoint_f64 c t) - y (calculatePoint c t)\<bar> \<le> 64 * M / 2 ^ 53"
proof -
  note nn = bernstein_nonneg [OF t]
  note w = weights_f64_error [OF t]
  have px: "x (calculatePoint c t) =
      x (position (points c ! 0)) * ((1 - t) * (1 - t) * (1 - t))
       + x (position (points c ! 1)) * (3 * ((1 - t) * (1 - t)) * t)
       + x (position (points c ! 2)) * (3 * (1 - t) * (t * t))
       + x (position (points c ! 3)) * (t * t * t)"
    by (simp add: calculatePoint_closed Vector2_new_def)
  have py: "y (calculatePoint c t) =
      y (position (points c ! 0)) * ((1 - t) * (1 - t) * (1 - t))
       + y (position (points c ! 1)) * (3 * ((1 - t) * (1 - t)) * t)
       + y (position (points c ! 2)) * (3 * (1 - t) * (t * t))
       + y (position (points c ! 3)) * (t * t * t)"
    by (simp add: calculatePoint_closed Vector2_new_def)
  show "\<bar>x (calculatePoint_f64 c t) - x (calculatePoint c t)\<bar> \<le> 64 * M / 2 ^ 53"
    unfolding calculatePoint_f64_x px
    by (rule combine_f64_error [OF nn bernstein_sum w c(1-4) M])
  show "\<bar>y (calculatePoint_f64 c t) - y (calculatePoint c t)\<bar> \<le> 64 * M / 2 ^ 53"
    unfolding calculatePoint_f64_y py
    by (rule combine_f64_error [OF nn bernstein_sum w c(5-8) M])
qed

lemma calculatePoint_f64_at_5:
  "calculatePoint_f64 (BezierCurve_new (ControlPoint_new 5 5 False) (ControlPoint_new 5 5 False) (ControlPoint_new 5 5 False) (ControlPoint_new 5 5 False)) (3 / 262144)
     = Vector2_new (5 - 1 / 2 ^ 50) (5 - 1 / 2 ^ 50)"
  by (simp add: calculatePoint_f64_def BezierCurve_new_def ControlPoint_new_def Let_def
      add_f64_def multiply_f64_def Vector2_new_def
      fl_u fl_tt fl_uu fl_uuu fl_ttt fl_uu3 fl_w1 fl_u3 fl_w2 fl_a0 fl_a1 fl_a2 fl_a3 fl_s1 fl_s2 fl_s3)

lemma weights_f64_sum_at_5:
  "fl (fl (fl (1 - (3 / 262144)) * fl (1 - (3 / 262144))) * fl (1 - (3 / 262144))) + fl (fl (3 * fl (fl (1 - (3 / 262144)) * fl (1 - (3 / 262144)))) * (3 / 262144)) + fl (fl (3 * fl (1 - (3 / 262144))) * fl ((3 / 262144) * (3 / 262144))) + fl (fl ((3 / 262144) * (3 / 262144)) * (3 / 262144)) = 1 - 1 / 2 ^ 54"
  by (simp add: fl_u fl_tt fl_uu fl_uuu fl_ttt fl_uu3 fl_w1 fl_u3 fl_w2)

text \<open>
  Claim C10, as the code has it. For every t in [0,1], in exact arithmetic the four
  weights \<open>(1-t)\<^sup>3\<close>, \<open>3(1-t)\<^sup>2t\<close>, \<open>3(1-t)t\<^sup>2\<close>, \<open>t\<^sup>3\<close> are not negative and add up
  to 1, the point is the sum of the four positions with these weights, and each of its
  coordinates lies between the least and the greatest of the four control points'
  coordinates. As the source computes them, in binary64, the four weights are still
  not negative, and each coordinate of the point computed differs from the exact one
  by at most \<open>64 M / 2\<^sup>5\<^sup>3\<close>, where \<open>M\<close>, at least 1 and at most \<open>2\<^sup>1\<^sup>0\<^sup>0\<^sup>0\<close>, bounds the
  magnitude of the control points' coordinates; so it lies within that distance of
  the bounding box, and not always inside it.
\<close>

theorem calculatePoint_f64_box:
  assumes "0 \<le> t" and "t \<le> 1" and "1 \<le> M" and "M \<le> 2 ^ 1000"
    and "\<bar>x (position q0)\<bar> \<le> M" and "\<bar>x (position q1)\<bar> \<le> M" and "\<bar>x (position q2)\<bar> \<le> M" and "\<bar>x (position q3)\<bar> \<le> M"
    and "\<bar>y (position q0)\<bar> \<le> M" and "\<bar>y (position q1)\<bar> \<le> M" and "\<bar>y (position q2)\<bar> \<le> M" and "\<bar>y (position q3)\<bar> \<le> M"
  shows "0 \<le> (1 - t) * (1 - t) * (1 - t)
       \<and> 0 \<le> 3 * ((1 - t) * (1 - t)) * t
       \<and> 0 \<le> 3 * (1 - t) * (t * t)
       \<and> 0 \<le> t * t * t
       \<and> (1 - t) * (1 - t) * (1 - t) + 3 * ((1 - t) * (1 - t)) * t
           + 3 * (1 - t) * (t * t) + t * t * t = 1
       \<and> calculatePoint (c\<lparr>points := [q0, q1, q2, q3]\<rparr>) t =
           Vector2_new
             (x (position q0) * ((1 - t) * (1 - t) * (1 - t))
               + x (position q1) * (3 * ((1 - t) * (1 - t)) * t)
               + x (position q2) * (3 * (1 - t) * (t * t))
               + x (position q3) * (t * t * t))
             (y (position q0) * ((1 - t) * (1 - t) * (1 - t))
               + y (position q1) * (3 * ((1 - t) * (1 - t)) * t)
               + y (position q2) * (3 * (1 - t) * (t * t))
               + y (position q3) * (t * t * t))
       \<and> Min {x (position q0), x (position q1), x (position q2), x (position q3)}
           \<le> x (calculatePoint (c\<lparr>points := [q0, q1, q2, q3]\<rparr>) t)
       \<and> x (calculatePoint (c\<lparr>points := [q0, q1, q2, q3]\<rparr>) t)
           \<le> Max {x (position q0), x (position q1), x (position q2), x (position q3)}
       \<and> Min {y (position q0), y (position q1), y (position q2), y (position q3)}
           \<le> y (calculatePoint (c\<lparr>points := [q0, q1, q2, q3]\<rparr>) t)
       \<and> y (calculatePoint (c\<lparr>points := [q0, q1, q2, q3]\<rparr>) t)
           \<le> Max {y (position q0), y (position q1), y (position q2), y (position q3)}
       \<and> 0 \<le> fl (fl (fl (1 - t) * fl (1 - t)) * fl (1 - t))
       \<and> 0 \<le> fl (fl (3 * fl (fl (1 - t) * fl (1 - t))) * t)
       \<and> 0 \<le> fl (fl (3 * fl (1 - t)) * fl (t * t))
       \<and> 0 \<le> fl (fl (t * t) * t)
       \<and> x (calculatePoint_f64 (c\<lparr>points := [q0, q1, q2, q3]\<rparr>) t) =
           fl (fl (fl (fl (x (position q0) * fl (fl (fl (1 - t) * fl (1 - t)) * fl (1 - t)))
                   + fl (x (position q1) * fl (fl (3 * fl (fl (1 - t) * fl (1 - t))) * t)))
                 + fl (x (position q2) * fl (fl (3 * fl (1 - t)) * fl (t * t))))
               + fl (x (position q3) * fl (fl (t * t) * t)))
       \<and> y (calculatePoint_f64 (c\<lparr>points := [q0, q1, q2, q3]\<rparr>) t) =
           fl (fl (fl (fl (y (position q0) * fl (fl (fl (1 - t) * fl (1 - t)) * fl (1 - t)))
                   + fl (y (position q1) * fl (fl (3 * fl (fl (1 - t) * fl (1 - t))) * t)))
                 + fl (y (position q2) * fl (fl (3 * fl (1 - t)) * fl (t * t))))
               + fl (y (position q3) * fl (fl (t * t) * t)))
       \<and> \<bar>x (calculatePoint_f64 (c\<lparr>points := [q0, q1, q2, q3]\<rparr>) t) - x (calculatePoint (c\<lparr>points := [q0, q1, q2, q3]\<rparr>) t)\<bar> \<le> 64 * M / 2 ^ 53
       \<and> \<bar>y (calculatePoint_f64 (c\<lparr>points := [q0, q1, q2, q3]\<rparr>) t) - y (calculatePoint (c\<lparr>points := [q0, q1, q2, q3]\<rparr>) t)\<bar> \<le> 64 * M / 2 ^ 53
       \<and> Min {x (position q0), x (position q1), x (position q2), x (position q3)} - 64 * M / 2 ^ 53
           \<le> x (calculatePoint_f64 (c\<lparr>points := [q0, q1, q2, q3]\<rparr>) t)
       \<and> x (calculatePoint_f64 (c\<lparr>points := [q0, q1, q2, q3]\<rparr>) t)
           \<le> Max {x (position q0), x (position q1), x (position q2), x (position q3)} + 64 * M / 2 ^ 53
       \<and> Min {y (position q0), y (position q1), y (position q2), y (position q3)} - 64 * M / 2 ^ 53
           \<le> y (calculatePoint_f64 (c\<lparr>points := [q0, q1, q2, q3]\<rparr>) t)
       \<and> y (calculatePoint_f64 (c\<lparr>points := [q0, q1, q2, q3]\<rparr>) t)
           \<le> Max {y (position q0), y (position q1), y (position q2), y (position q3)} + 64 * M / 2 ^ 53"
proof -
  let ?c = "c\<lparr>points := [q0, q1, q2, q3]\<rparr>"
  have t: "0 \<le> t" "t \<le> 1" and M: "1 \<le> M" by fact+
  have ex: "0 \<le> (1 - t) * (1 - t) * (1 - t)
       \<and> 0 \<le> 3 * ((1 - t) * (1 - t)) * t
       \<and> 0 \<le> 3 * (1 - t) * (t * t)
       \<and> 0 \<le> t * t * t
       \<and> (1 - t) * (1 - t) * (1 - t) + 3 * ((1 - t) * (1 - t)) * t
           + 3 * (1 - t) * (t * t) + t * t * t = 1
       \<and> calculatePoint (c\<lparr>points := [q0, q1, q2, q3]\<rparr>) t =
           Vector2_new
             (x (position q0) * ((1 - t) * (1 - t) * (1 - t))
               + x (position q1) * (3 * ((1 - t) * (1 - t)) * t)
               + x (position q2) * (3 * (1 - t) * (t * t))
               + x (position q3) * (t * t * t))
             (y (position q0) * ((1 - t) * (1 - t) * (1 - t))
               + y (position q1) * (3 * ((1 - t) * (1 - t)) * t)
               + y (position q2) * (3 * (1 - t) * (t * t))
               + y (position q3) * (t * t * t))
       \<and> Min {x (position q0), x (position q1), x (position q2), x (position q3)}
           \<le> x (calculatePoint (c\<lparr>points := [q0, q1, q2, q3]\<rparr>) t)
       \<and> x (calculatePoint (c\<lparr>points := [q0, q1, q2, q3]\<rparr>) t)
           \<le> Max {x (position q0), x (position q1), x (position q2), x (position q3)}
       \<and> Min {y (position q0), y (position q1), y (position q2), y (position q3)}
           \<le> y (calculatePoint (c\<lparr>points := [q0, q1, q2, q3]\<rparr>) t)
       \<and> y (calculatePoint (c\<lparr>points := [q0, q1, q2, q3]\<rparr>) t)
           \<le> Max {y (position q0), y (position q1), y (position q2), y (position q3)}"
    by (rule calculatePoint_convex [OF t])
  have nn: "0 \<le> fl (fl (fl (1 - t) * fl (1 - t)) * fl (1 - t))" "0 \<le> fl (fl (3 * fl (fl (1 - t) * fl (1 - t))) * t)"
    "0 \<le> fl (fl (3 * fl (1 - t)) * fl (t * t))" "0 \<le> fl (fl (t * t) * t)"
    by (rule weights_f64_nonneg [OF t])+
  have fx: "x (calculatePoint_f64 (c\<lparr>points := [q0, q1, q2, q3]\<rparr>) t) =
           fl (fl (fl (fl (x (position q0) * fl (fl (fl (1 - t) * fl (1 - t)) * fl (1 - t)))
                   + fl (x (position q1) * fl (fl (3 * fl (fl (1 - t) * fl (1 - t))) * t)))
                 + fl (x (position q2) * fl (fl (3 * fl (1 - t)) * fl (t * t))))
               + fl (x (position q3) * fl (fl (t * t) * t)))"
    by (simp add: calculatePoint_f64_x)
  have fy: "y (calculatePoint_f64 (c\<lparr>points := [q0, q1, q2, q3]\<rparr>) t) =
           fl (fl (fl (fl (y (position q0) * fl (fl (fl (1 - t) * fl (1 - t)) * fl (1 - t)))
                   + fl (y (position q1) * fl (fl (3 * fl (fl (1 - t) * fl (1 - t))) * t)))
                 + fl (y (position q2) * fl (fl (3 * fl (1 - t)) * fl (t * t))))
               + fl (y (position q3) * fl (fl (t * t) * t)))"
    by (simp add: calculatePoint_f64_y)
  have ex': "\<bar>x (calculatePoint_f64 (c\<lparr>points := [q0, q1, q2, q3]\<rparr>) t) - x (calculatePoint (c\<lparr>points := [q0, q1, q2, q3]\<rparr>) t)\<bar> \<le> 64 * M / 2 ^ 53"
    by (rule calculatePoint_f64_error(1) [OF t M]) (simp_all add: assms)
  have ey': "\<bar>y (calculatePoint_f64 (c\<lparr>points := [q0, q1, q2, q3]\<rparr>) t) - y (calculatePoint (c\<lparr>points := [q0, q1, q2, q3]\<rparr>) t)\<bar> \<le> 64 * M / 2 ^ 53"
    by (rule calculatePoint_f64_error(2) [OF t M]) (simp_all add: assms)
  from ex ex' have bx: "Min {x (position q0), x (position q1), x (position q2), x (position q3)} - 64 * M / 2 ^ 53
           \<le> x (calculatePoint_f64 (c\<lparr>points := [q0, q1, q2, q3]\<rparr>) t)"
    "x (calculatePoint_f64 (c\<lparr>points := [q0, q1, q2, q3]\<rparr>) t)
           \<le> Max {x (position q0), x (position q1), x (position q2), x (position q3)} + 64 * M / 2 ^ 53"
    by linarith+
  from ex ey' have by': "Min {y (position q0), y (position q1), y (position q2), y (position q3)} - 64 * M / 2 ^ 53
           \<le> y (calculatePoint_f64 (c\<lparr>points := [q0, q1, q2, q3]\<rparr>) t)"
    "y (calculatePoint_f64 (c\<lparr>points := [q0, q1, q2, q3]\<rparr>) t)
           \<le> Max {y (position q0), y (position q1), y (position q2), y (position q3)} + 64 * M / 2 ^ 53"
    by linarith+
  from ex nn fx fy ex' ey' bx by' show ?thesis by blast
qed

theorem calculatePoint_f64_box_witness:
  "(0::real) \<le> 3 / 262144
   \<and> (3 / 262144 :: real) \<le> 1
   \<and> (1::real) \<le> 5
   \<and> (5::real) \<le> 2 ^ 1000
   \<and> \<bar>x (position (ControlPoint_new 5 5 False))\<bar> \<le> 5
   \<and> \<bar>y (position (ControlPoint_new 5 5 False))\<bar> \<le> 5
   \<and> Min {x (position (ControlPoint_new 5 5 False)), x (position (ControlPoint_new 5 5 False)), x (position (ControlPoint_new 5 5 False)), x (position (ControlPoint_new 5 5 False))} - 64 * 5 / 2 ^ 53
       \<le> x (calculatePoint_f64 ((BezierCurve_new (ControlPoint_new 5 5 False) (ControlPoint_new 5 5 False) (ControlPoint_new 5 5 False) (ControlPoint_new 5 5 False))\<lparr>points := [ControlPoint_new 5 5 False, ControlPoint_new 5 5 False, ControlPoint_new 5 5 False, ControlPoint_new 5 5 False]\<rparr>) (3 / 262144))
   \<and> x (calculatePoint_f64 ((BezierCurve_new (ControlPoint_new 5 5 False) (ControlPoint_new 5 5 False) (ControlPoint_new 5 5 False) (ControlPoint_new 5 5 False))\<lparr>points := [ControlPoint_new 5 5 False, ControlPoint_new 5 5 False, ControlPoint_new 5 5 False, ControlPoint_new 5 5 False]\<rparr>) (3 / 262144))
       \<le> Max {x (position (ControlPoint_new 5 5 False)), x (position (ControlPoint_new 5 5 False)), x (position (ControlPoint_new 5 5 False)), x (position (ControlPoint_new 5 5 False))} + 64 * 5 / 2 ^ 53
   \<and> \<bar>x (calculatePoint_f64 ((BezierCurve_new (ControlPoint_new 5 5 False) (ControlPoint_new 5 5 False) (ControlPoint_new 5 5 False) (ControlPoint_new 5 5 False))\<lparr>points := [ControlPoint_new 5 5 False, ControlPoint_new 5 5 False, ControlPoint_new 5 5 False, ControlPoint_new 5 5 False]\<rparr>) (3 / 262144)) - x (calculatePoint ((BezierCurve_new (ControlPoint_new 5 5 False) (ControlPoint_new 5 5 False) (ControlPoint_new 5 5 False) (ControlPoint_new 5 5 False))\<lparr>points := [ControlPoint_new 5 5 False, ControlPoint_new 5 5 False, ControlPoint_new 5 5 False, ControlPoint_new 5 5 False]\<rparr>) (3 / 262144))\<bar> \<le> 64 * 5 / 2 ^ 53
   \<and> Min {x (position (ControlPoint_new 5 5 False)), x (position (ControlPoint_new 5 5 False)), x (position (ControlPoint_new 5 5 False)), x (position (ControlPoint_new 5 5 False))}
       \<le> x (calculatePoint ((BezierCurve_new (ControlPoint_new 5 5 False) (ControlPoint_new 5 5 False) (ControlPoint_new 5 5 False) (ControlPoint_new 5 5 False))\<lparr>points := [ControlPoint_new 5 5 False, ControlPoint_new 5 5 False, ControlPoint_new 5 5 False, ControlPoint_new 5 5 False]\<rparr>) (3 / 262144))
   \<and> x (calculatePoint_f64 ((BezierCurve_new (ControlPoint_new 5 5 False) (ControlPoint_new 5 5 False) (ControlPoint_new 5 5 False) (ControlPoint_new 5 5 False))\<lparr>points := [ControlPoint_new 5 5 False, ControlPoint_new 5 5 False, ControlPoint_new 5 5 False, ControlPoint_new 5 5 False]\<rparr>) (3 / 262144)) = 5 - 1 / 2 ^ 50
   \<and> Min {x (position (ControlPoint_new 5 5 False)), x (position (ControlPoint_new 5 5 False)), x (position (ControlPoint_new 5 5 False)), x (position (ControlPoint_new 5 5 False))} = 5"
proof -
  let ?p = "ControlPoint_new 5 5 False"
  let ?c = "(BezierCurve_new (ControlPoint_new 5 5 False) (ControlPoint_new 5 5 False) (ControlPoint_new 5 5 False) (ControlPoint_new 5 5 False))\<lparr>points := [ControlPoint_new 5 5 False, ControlPoint_new 5 5 False, ControlPoint_new 5 5 False, ControlPoint_new 5 5 False]\<rparr>"
  have h: "(0::real) \<le> 3 / 262144" "(3 / 262144 :: real) \<le> 1" "(1::real) \<le> 5"
    "(5::real) \<le> 2 ^ 1000"
    by simp_all
  have q: "\<bar>x (position ?p)\<bar> \<le> 5" "\<bar>y (position ?p)\<bar> \<le> 5"
    by (simp_all add: ControlPoint_new_def Vector2_new_def)
  note u = calculatePoint_f64_box [OF h q(1) q(1) q(1) q(1) q(2) q(2) q(2) q(2),
      where c = "BezierCurve_new (ControlPoint_new 5 5 False) (ControlPoint_new 5 5 False) (ControlPoint_new 5 5 False) (ControlPoint_new 5 5 False)"]
  from u have a: "Min {x (position (ControlPoint_new 5 5 False)), x (position (ControlPoint_new 5 5 False)), x (position (ControlPoint_new 5 5 False)), x (position (ControlPoint_new 5 5 False))} - 64 * 5 / 2 ^ 53
       \<le> x (calculatePoint_f64 ((BezierCurve_new (ControlPoint_new 5 5 False) (ControlPoint_new 5 5 False) (ControlPoint_new 5 5 False) (ControlPoint_new 5 5 False))\<lparr>points := [ControlPoint_new 5 5 False, ControlPoint_new 5 5 False, ControlPoint_new 5 5 False, ControlPoint_new 5 5 False]\<rparr>) (3 / 262144))" by blast
  from u have b: "x (calculatePoint_f64 ((BezierCurve_new (ControlPoint_new 5 5 False) (ControlPoint_new 5 5 False) (ControlPoint_new 5 5 False) (ControlPoint_new 5 5 False))\<lparr>points := [ControlPoint_new 5 5 False, ControlPoint_new 5 5 False, ControlPoint_new 5 5 False, ControlPoint_new 5 5 False]\<rparr>) (3 / 262144))
       \<le> Max {x (position (ControlPoint_new 5 5 False)), x (position (ControlPoint_new 5 5 False)), x (position (ControlPoint_new 5 5 False)), x (position (ControlPoint_new 5 5 False))} + 64 * 5 / 2 ^ 53" by blast
  from u have c: "\<bar>x (calculatePoint_f64 ((BezierCurve_new (ControlPoint_new 5 5 False) (ControlPoint_new 5 5 False) (ControlPoint_new 5 5 False) (ControlPoint_new 5 5 False))\<lparr>points := [ControlPoint_new 5 5 False, ControlPoint_new 5 5 False, ControlPoint_new 5 5 False, ControlPoint_new 5 5 False]\<rparr>) (3 / 262144)) - x (calculatePoint ((BezierCurve_new (ControlPoint_new 5 5 False) (ControlPoint_new 5 5 False) (ControlPoint_new 5 5 False) (ControlPoint_new 5 5 False))\<lparr>points := [ControlPoint_new 5 5 False, ControlPoint_new 5 5 False, ControlPoint_new 5 5 False, ControlPoint_new 5 5 False]\<rparr>) (3 / 262144))\<bar> \<le> 64 * 5 / 2 ^ 53" by blast
  from u have d: "Min {x (position (ControlPoint_new 5 5 False)), x (position (ControlPoint_new 5 5 False)), x (position (ControlPoint_new 5 5 False)), x (position (ControlPoint_new 5 5 False))}
       \<le> x (calculatePoint ((BezierCurve_new (ControlPoint_new 5 5 False) (ControlPoint_new 5 5 False) (ControlPoint_new 5 5 False) (ControlPoint_new 5 5 False))\<lparr>points := [ControlPoint_new 5 5 False, ControlPoint_new 5 5 False, ControlPoint_new 5 5 False, ControlPoint_new 5 5 False]\<rparr>) (3 / 262144))" by blast
  have "?c = BezierCurve_new (ControlPoint_new 5 5 False) (ControlPoint_new 5 5 False) (ControlPoint_new 5 5 False) (ControlPoint_new 5 5 False)" by (simp add: BezierCurve_new_def)
  then have e: "x (calculatePoint_f64 ((BezierCurve_new (ControlPoint_new 5 5 False) (ControlPoint_new 5 5 False) (ControlPoint_new 5 5 False) (ControlPoint_new 5 5 False))\<lparr>points := [ControlPoint_new 5 5 False, ControlPoint_new 5 5 False, ControlPoint_new 5 5 False, ControlPoint_new 5 5 False]\<rparr>) (3 / 262144)) = 5 - 1 / 2 ^ 50"
    by (simp add: calculatePoint_f64_at_5 Vector2_new_def)
  have f: "Min {x (position (ControlPoint_new 5 5 False)), x (position (ControlPoint_new 5 5 False)), x (position (ControlPoint_new 5 5 False)), x (position (ControlPoint_new 5 5 False))} = 5"
    by (simp add: ControlPoint_new_def Vector2_new_def)
  from h q a b c d e f show ?thesis by blast
qed

text \<open>
  The claim C10 as stated fails in binary64: with all four control points at (5,5) and
  \<open>t = 3/262144\<close> the x-coordinate computed is \<open>5 - 2\<^sup>-\<^sup>5\<^sup>0\<close>, below the least
  coordinate 5, and the four weights computed add up to \<open>1 - 2\<^sup>-\<^sup>5\<^sup>4\<close>.
\<close>

theorem calculatePoint_f64_leaves_box:
  "(0::real) \<le> 3 / 262144 \<and> (3 / 262144 :: real) \<le> 1
   \<and> x (calculatePoint_f64 (BezierCurve_new (ControlPoint_new 5 5 False) (ControlPoint_new 5 5 False) (ControlPoint_new 5 5 False) (ControlPoint_new 5 5 False)) (3 / 262144)) = 5 - 1 / 2 ^ 50
   \<and> \<not> (Min {x (position (ControlPoint_new 5 5 False)), x (position (ControlPoint_new 5 5 False)), x (position (ControlPoint_new 5 5 False)), x (position (ControlPoint_new 5 5 False))}
          \<le> x (calculatePoint_f64 (BezierCurve_new (ControlPoint_new 5 5 False) (ControlPoint_new 5 5 False) (ControlPoint_new 5 5 False) (ControlPoint_new 5 5 False)) (3 / 262144)))
   \<and> fl (fl (fl (1 - (3 / 262144)) * fl (1 - (3 / 262144))) * fl (1 - (3 / 262144))) + fl (fl (3 * fl (fl (1 - (3 / 262144)) * fl (1 - (3 / 262144)))) * (3 / 262144)) + fl (fl (3 * fl (1 - (3 / 262144))) * fl ((3 / 262144) * (3 / 262144))) + fl (fl ((3 / 262144) * (3 / 262144)) * (3 / 262144)) \<noteq> 1"
proof -
  have a: "x (calculatePoint_f64 (BezierCurve_new (ControlPoint_new 5 5 False) (ControlPoint_new 5 5 False) (ControlPoint_new 5 5 False) (ControlPoint_new 5 5 False)) (3 / 262144)) = 5 - 1 / 2 ^ 50"
    by (simp add: calculatePoint_f64_at_5 Vector2_new_def)
  have b: "Min {x (position (ControlPoint_new 5 5 False)), x (position (ControlPoint_new 5 5 False)), x (position (ControlPoint_new 5 5 False)), x (position (ControlPoint_new 5 5 False))} = 5"
    by (simp add: ControlPoint_new_def Vector2_new_def)
  have c: "fl (fl (fl (1 - (3 / 262144)) * fl (1 - (3 / 262144))) * fl (1 - (3 / 262144))) + fl (fl (3 * fl (fl (1 - (3 / 262144)) * fl (1 - (3 / 262144)))) * (3 / 262144)) + fl (fl (3 * fl (1 - (3 / 262144))) * fl ((3 / 262144) * (3 / 262144))) + fl (fl ((3 / 262144) * (3 / 262144)) * (3 / 262144)) \<noteq> 1"
    unfolding weights_f64_sum_at_5 by simp
  have d: "\<not> (5 \<le> (5 - 1 / 2 ^ 50 :: real))" by simp
  show ?thesis unfolding a b using c d by simp
qed

section \<open>Resampling\<close>

lemma calculatePoint_outputs [simp]:
  "calculatePoint (c\<lparr>curve := cs\<rparr>) t = calculatePoint c t"
  "calculatePoint (c\<lparr>tangents := ts\<rparr>) t = calculatePoint c t"
  by (simp_all add: calculatePoint_def)

lemma calculateTangent_outputs [simp]:
  "calculateTangent (c\<lparr>curve := cs\<rparr>) t = calculateTangent c t"
  "calculateTangent (c\<lparr>tangents := ts\<rparr>) t = calculateTangent c t"
  by (simp_all add: calculateTangent_def)

lemma sample_outputs [simp]:
  "sample (c\<lparr>curve := cs\<rparr>) = sample c" "sample (c\<lparr>tangents := ts\<rparr>) = sample c"
  by (simp_all add: sample_def fun_eq_iff)

lemma marker_outputs [simp]:
  "marker (c\<lparr>curve := cs\<rparr>) = marker c" "marker (c\<lparr>tangents := ts\<rparr>) = marker c"
  by (simp_all add: marker_def fun_eq_iff)

lemma update_loop_eq:
  "update_loop i c =
     c\<lparr>curve := curve c @ map (sample c) [i ..< Suc (segments c)],
       tangents := tangents c @ map (marker c) (filter (\<lambda>j. j mod 10 = 0) [i ..< Suc (segments c)])\<rparr>"
proof (induction i c rule: update_loop.induct)
  case (1 i c)
  show ?case
  proof (cases "i \<le> segments c")
    case False
    then show ?thesis by (subst update_loop.simps) simp
  next
    case True
    then have up: "[i ..< Suc (segments c)] = i # [Suc i ..< Suc (segments c)]"
      by (simp add: upt_conv_Cons)
    show ?thesis
    proof (cases "i mod 10 = 0")
      case m: True
      let ?c2 = "c\<lparr>curve := curve c @ [sample c i], tangents := tangents c @ [marker c i]\<rparr>"
      have "update_loop i c = update_loop (i + 1) ?c2"
        using True m by (subst update_loop.simps) (simp add: Let_def sample_def marker_def)
      also have "\<dots> = ?c2\<lparr>curve := curve ?c2 @ map (sample ?c2) [i + 1 ..< Suc (segments ?c2)],
         tangents := tangents ?c2 @ map (marker ?c2) (filter (\<lambda>j. j mod 10 = 0) [i + 1 ..< Suc (segments ?c2)])\<rparr>"
        using "1.IH" [OF True refl refl refl] True m by (simp add: Let_def sample_def marker_def)
      also have "\<dots> = c\<lparr>curve := curve c @ map (sample c) [i ..< Suc (segments c)],
         tangents := tangents c @ map (marker c) (filter (\<lambda>j. j mod 10 = 0) [i ..< Suc (segments c)])\<rparr>"
        unfolding up using m by simp
      finally show ?thesis .
    next
      case m: False
      let ?c2 = "c\<lparr>curve := curve c @ [sample c i]\<rparr>"
      have "update_loop i c = update_loop (i + 1) ?c2"
        using True m by (subst update_loop.simps) (simp add: Let_def sample_def marker_def)
      also have "\<dots> = ?c2\<lparr>curve := curve ?c2 @ map (sample ?c2) [i + 1 ..< Suc (segments ?c2)],
         tangents := tangents ?c2 @ map (marker ?c2) (filter (\<lambda>j. j mod 10 = 0) [i + 1 ..< Suc (segments ?c2)])\<rparr>"
        using "1.IH" [OF True refl refl refl] True m by (simp add: Let_def sample_def marker_def)
      also have "\<dots> = c\<lparr>curve := curve c @ map (sample c) [i ..< Suc (segments c)],
         tangents := tangents c @ map (marker c) (filter (\<lambda>j. j mod 10 = 0) [i ..< Suc (segments c)])\<rparr>"
        unfolding up using m by simp
      finally show ?thesis .
    qed
  qed
qed

lemma update_eq:
  "update c = c\<lparr>curve := map (sample c) [0 ..< Suc (segments c)],
       tangents := map (marker c) (filter (\<lambda>j. j mod 10 = 0) [0 ..< Suc (segments c)])\<rparr>"
  by (simp add: update_def update_loop_eq)







section \<open>Target clamping\<close>

lemma upd_point_fields [simp]:
  "canvas_width (upd_point i f a) = canvas_width a"
  "canvas_height (upd_point i f a) = canvas_height a"
  "physics (upd_point i f a) = physics a"
  "mode (upd_point i f a) = mode a"
  "dragged (upd_point i f a) = dragged a"
  "mousePos (upd_point i f a) = mousePos a"
  "lastTime (upd_point i f a) = lastTime a"
  "points (app_curve (upd_point i f a)) = (points (app_curve a))[i := f (points (app_curve a) ! i)]"
  by (simp_all add: upd_point_def)

lemma clampTargets_fields [simp]:
  "canvas_width (clampTargets a) = canvas_width a"
  "canvas_height (clampTargets a) = canvas_height a"
  "length (points (app_curve (clampTargets a))) = length (points (app_curve a))"
  by (simp_all add: clampTargets_def Let_def)

lemma clampTargets_p1:
  assumes "length (points (app_curve a)) = 4"
  shows "target (p1 (clampTargets a)) =
           \<lparr>x = max 50 (min (x (target (p1 a))) (canvas_width a - 50)),
            y = max 50 (min (y (target (p1 a))) (canvas_height a - 50))\<rparr>"
  using assms by (simp add: clampTargets_def Let_def p1_def)

lemma clampTargets_p2:
  assumes "length (points (app_curve a)) = 4"
  shows "target (p2 (clampTargets a)) =
           \<lparr>x = max 50 (min (x (target (p2 a))) (canvas_width a - 50)),
            y = max 50 (min (y (target (p2 a))) (canvas_height a - 50))\<rparr>"
  using assms by (simp add: clampTargets_def Let_def p2_def)

lemma clampTargets_in_range:
  assumes "canvas_width a = 800" and "canvas_height a = 500"
    and "length (points (app_curve a)) = 4"
  shows "50 \<le> x (target (p1 (clampTargets a))) \<and> x (target (p1 (clampTargets a))) \<le> 750
       \<and> 50 \<le> y (target (p1 (clampTargets a))) \<and> y (target (p1 (clampTargets a))) \<le> 450
       \<and> 50 \<le> x (target (p2 (clampTargets a))) \<and> x (target (p2 (clampTargets a))) \<le> 750
       \<and> 50 \<le> y (target (p2 (clampTargets a))) \<and> y (target (p2 (clampTargets a))) \<le> 450"
  using assms by (simp add: clampTargets_p1 clampTargets_p2)

text \<open>
  Claim C6. On the 800 by 500 canvas, whatever the targets were, after \<^verbatim>\<open>clampTargets\<close>
  the targets of both interior points have their x in [50, 750] and their y in
  [50, 450]. The two callers end with the clamp, so the same holds after a pointer
  move that steers (nothing dragged, mouse mode) and after a device-motion event in
  motion mode, for every pointer position and every rotation rate.
\<close>

theorem clampTargets_bounds:
  assumes "canvas_width a = 800" and "canvas_height a = 500"
    and "length (points (app_curve a)) = 4"
  shows "50 \<le> x (target (p1 (clampTargets a))) \<and> x (target (p1 (clampTargets a))) \<le> 750
       \<and> 50 \<le> y (target (p1 (clampTargets a))) \<and> y (target (p1 (clampTargets a))) \<le> 450
       \<and> 50 \<le> x (target (p2 (clampTargets a))) \<and> x (target (p2 (clampTargets a))) \<le> 750
       \<and> 50 \<le> y (target (p2 (clampTargets a))) \<and> y (target (p2 (clampTargets a))) \<le> 450
       \<and> (dragged a = None \<and> mode a = ''mouse'' \<longrightarrow>
            50 \<le> x (target (p1 (mouseMove a rect e))) \<and> x (target (p1 (mouseMove a rect e))) \<le> 750
          \<and> 50 \<le> y (target (p1 (mouseMove a rect e))) \<and> y (target (p1 (mouseMove a rect e))) \<le> 450
          \<and> 50 \<le> x (target (p2 (mouseMove a rect e))) \<and> x (target (p2 (mouseMove a rect e))) \<le> 750
          \<and> 50 \<le> y (target (p2 (mouseMove a rect e))) \<and> y (target (p2 (mouseMove a rect e))) \<le> 450)
       \<and> (mode a = ''motion'' \<and> rotationRate m \<noteq> None \<longrightarrow>
            50 \<le> x (target (p1 (handleMotion a m))) \<and> x (target (p1 (handleMotion a m))) \<le> 750
          \<and> 50 \<le> y (target (p1 (handleMotion a m))) \<and> y (target (p1 (handleMotion a m))) \<le> 450
          \<and> 50 \<le> x (target (p2 (handleMotion a m))) \<and> x (target (p2 (handleMotion a m))) \<le> 750
          \<and> 50 \<le> y (target (p2 (handleMotion a m))) \<and> y (target (p2 (handleMotion a m))) \<le> 450)"
proof -
  note direct = clampTargets_in_range [OF assms]
  have mm: "dragged a = None \<and> mode a = ''mouse'' \<longrightarrow>
            50 \<le> x (target (p1 (mouseMove a rect e))) \<and> x (target (p1 (mouseMove a rect e))) \<le> 750
          \<and> 50 \<le> y (target (p1 (mouseMove a rect e))) \<and> y (target (p1 (mouseMove a rect e))) \<le> 450
          \<and> 50 \<le> x (target (p2 (mouseMove a rect e))) \<and> x (target (p2 (mouseMove a rect e))) \<le> 750
          \<and> 50 \<le> y (target (p2 (mouseMove a rect e))) \<and> y (target (p2 (mouseMove a rect e))) \<le> 450"
  proof
    assume h: "dragged a = None \<and> mode a = ''mouse''"
    then obtain b where b: "mouseMove a rect e = clampTargets b" "canvas_width b = 800"
      "canvas_height b = 500" "length (points (app_curve b)) = 4"
      using assms by (simp add: mouseMove_def Let_def)
    show "50 \<le> x (target (p1 (mouseMove a rect e))) \<and> x (target (p1 (mouseMove a rect e))) \<le> 750
          \<and> 50 \<le> y (target (p1 (mouseMove a rect e))) \<and> y (target (p1 (mouseMove a rect e))) \<le> 450
          \<and> 50 \<le> x (target (p2 (mouseMove a rect e))) \<and> x (target (p2 (mouseMove a rect e))) \<le> 750
          \<and> 50 \<le> y (target (p2 (mouseMove a rect e))) \<and> y (target (p2 (mouseMove a rect e))) \<le> 450"
      unfolding b(1) by (rule clampTargets_in_range [OF b(2-4)])
  qed
  have hm: "mode a = ''motion'' \<and> rotationRate m \<noteq> None \<longrightarrow>
            50 \<le> x (target (p1 (handleMotion a m))) \<and> x (target (p1 (handleMotion a m))) \<le> 750
          \<and> 50 \<le> y (target (p1 (handleMotion a m))) \<and> y (target (p1 (handleMotion a m))) \<le> 450
          \<and> 50 \<le> x (target (p2 (handleMotion a m))) \<and> x (target (p2 (handleMotion a m))) \<le> 750
          \<and> 50 \<le> y (target (p2 (handleMotion a m))) \<and> y (target (p2 (handleMotion a m))) \<le> 450"
  proof
    assume h: "mode a = ''motion'' \<and> rotationRate m \<noteq> None"
    then obtain b where b: "handleMotion a m = clampTargets b" "canvas_width b = 800"
      "canvas_height b = 500" "length (points (app_curve b)) = 4"
      using assms by (auto simp: handleMotion_def Let_def)
    show "50 \<le> x (target (p1 (handleMotion a m))) \<and> x (target (p1 (handleMotion a m))) \<le> 750
          \<and> 50 \<le> y (target (p1 (handleMotion a m))) \<and> y (target (p1 (handleMotion a m))) \<le> 450
          \<and> 50 \<le> x (target (p2 (handleMotion a m))) \<and> x (target (p2 (handleMotion a m))) \<le> 750
          \<and> 50 \<le> y (target (p2 (handleMotion a m))) \<and> y (target (p2 (handleMotion a m))) \<le> 450"
      unfolding b(1) by (rule clampTargets_in_range [OF b(2-4)])
  qed
  from direct mm hm show ?thesis by blast
qed

theorem clampTargets_bounds_witness:
  "canvas_width (upd_point 1 (\<lambda>p. p\<lparr>target := Vector2_new 1000000 (- 1000000)\<rparr>) BezierApp_new) = 800
   \<and> canvas_height (upd_point 1 (\<lambda>p. p\<lparr>target := Vector2_new 1000000 (- 1000000)\<rparr>) BezierApp_new) = 500
   \<and> length (points (app_curve (upd_point 1 (\<lambda>p. p\<lparr>target := Vector2_new 1000000 (- 1000000)\<rparr>) BezierApp_new))) = 4
   \<and> x (target (p1 (upd_point 1 (\<lambda>p. p\<lparr>target := Vector2_new 1000000 (- 1000000)\<rparr>) BezierApp_new))) = 1000000
   \<and> y (target (p1 (upd_point 1 (\<lambda>p. p\<lparr>target := Vector2_new 1000000 (- 1000000)\<rparr>) BezierApp_new))) = - 1000000
   \<and> 50 \<le> x (target (p1 (clampTargets (upd_point 1 (\<lambda>p. p\<lparr>target := Vector2_new 1000000 (- 1000000)\<rparr>) BezierApp_new))))
   \<and> x (target (p1 (clampTargets (upd_point 1 (\<lambda>p. p\<lparr>target := Vector2_new 1000000 (- 1000000)\<rparr>) BezierApp_new)))) \<le> 750
   \<and> 50 \<le> y (target (p1 (clampTargets (upd_point 1 (\<lambda>p. p\<lparr>target := Vector2_new 1000000 (- 1000000)\<rparr>) BezierApp_new))))
   \<and> y (target (p1 (clampTargets (upd_point 1 (\<lambda>p. p\<lparr>target := Vector2_new 1000000 (- 1000000)\<rparr>) BezierApp_new)))) \<le> 450
   \<and> 50 \<le> x (target (p2 (clampTargets (upd_point 1 (\<lambda>p. p\<lparr>target := Vector2_new 1000000 (- 1000000)\<rparr>) BezierApp_new))))
   \<and> x (target (p2 (clampTargets (upd_point 1 (\<lambda>p. p\<lparr>target := Vector2_new 1000000 (- 1000000)\<rparr>) BezierApp_new)))) \<le> 750
   \<and> 50 \<le> y (target (p2 (clampTargets (upd_point 1 (\<lambda>p. p\<lparr>target := Vector2_new 1000000 (- 1000000)\<rparr>) BezierApp_new))))
   \<and> y (target (p2 (clampTargets (upd_point 1 (\<lambda>p. p\<lparr>target := Vector2_new 1000000 (- 1000000)\<rparr>) BezierApp_new)))) \<le> 450
   \<and> dragged (upd_point 1 (\<lambda>p. p\<lparr>target := Vector2_new 1000000 (- 1000000)\<rparr>) BezierApp_new) = None
   \<and> mode (upd_point 1 (\<lambda>p. p\<lparr>target := Vector2_new 1000000 (- 1000000)\<rparr>) BezierApp_new) = ''mouse''
   \<and> 50 \<le> x (target (p1 (mouseMove (upd_point 1 (\<lambda>p. p\<lparr>target := Vector2_new 1000000 (- 1000000)\<rparr>) BezierApp_new) \<lparr>left = 0, top = 0\<rparr> \<lparr>clientX = 1000000, clientY = - 1000000\<rparr>)))
   \<and> x (target (p1 (mouseMove (upd_point 1 (\<lambda>p. p\<lparr>target := Vector2_new 1000000 (- 1000000)\<rparr>) BezierApp_new) \<lparr>left = 0, top = 0\<rparr> \<lparr>clientX = 1000000, clientY = - 1000000\<rparr>))) \<le> 750
   \<and> 50 \<le> y (target (p1 (mouseMove (upd_point 1 (\<lambda>p. p\<lparr>target := Vector2_new 1000000 (- 1000000)\<rparr>) BezierApp_new) \<lparr>left = 0, top = 0\<rparr> \<lparr>clientX = 1000000, clientY = - 1000000\<rparr>)))
   \<and> y (target (p1 (mouseMove (upd_point 1 (\<lambda>p. p\<lparr>target := Vector2_new 1000000 (- 1000000)\<rparr>) BezierApp_new) \<lparr>left = 0, top = 0\<rparr> \<lparr>clientX = 1000000, clientY = - 1000000\<rparr>))) \<le> 450
   \<and> 50 \<le> x (target (p2 (mouseMove (upd_point 1 (\<lambda>p. p\<lparr>target := Vector2_new 1000000 (- 1000000)\<rparr>) BezierApp_new) \<lparr>left = 0, top = 0\<rparr> \<lparr>clientX = 1000000, clientY = - 1000000\<rparr>)))
   \<and> x (target (p2 (mouseMove (upd_point 1 (\<lambda>p. p\<lparr>target := Vector2_new 1000000 (- 1000000)\<rparr>) BezierApp_new) \<lparr>left = 0, top = 0\<rparr> \<lparr>clientX = 1000000, clientY = - 1000000\<rparr>))) \<le> 750
   \<and> 50 \<le> y (target (p2 (mouseMove (upd_point 1 (\<lambda>p. p\<lparr>target := Vector2_new 1000000 (- 1000000)\<rparr>) BezierApp_new) \<lparr>left = 0, top = 0\<rparr> \<lparr>clientX = 1000000, clientY = - 1000000\<rparr>)))
   \<and> y (target (p2 (mouseMove (upd_point 1 (\<lambda>p. p\<lparr>target := Vector2_new 1000000 (- 1000000)\<rparr>) BezierApp_new) \<lparr>left = 0, top = 0\<rparr> \<lparr>clientX = 1000000, clientY = - 1000000\<rparr>))) \<le> 450
   \<and> canvas_width (switchMode (upd_point 1 (\<lambda>p. p\<lparr>target := Vector2_new 1000000 (- 1000000)\<rparr>) BezierApp_new)) = 800
   \<and> canvas_height (switchMode (upd_point 1 (\<lambda>p. p\<lparr>target := Vector2_new 1000000 (- 1000000)\<rparr>) BezierApp_new)) = 500
   \<and> length (points (app_curve (switchMode (upd_point 1 (\<lambda>p. p\<lparr>target := Vector2_new 1000000 (- 1000000)\<rparr>) BezierApp_new)))) = 4
   \<and> mode (switchMode (upd_point 1 (\<lambda>p. p\<lparr>target := Vector2_new 1000000 (- 1000000)\<rparr>) BezierApp_new)) = ''motion''
   \<and> rotationRate \<lparr>rotationRate = Some \<lparr>beta = Some 1000000, gamma = None\<rparr>\<rparr> \<noteq> None
   \<and> 50 \<le> x (target (p1 (handleMotion (switchMode (upd_point 1 (\<lambda>p. p\<lparr>target := Vector2_new 1000000 (- 1000000)\<rparr>) BezierApp_new)) \<lparr>rotationRate = Some \<lparr>beta = Some 1000000, gamma = None\<rparr>\<rparr>)))
   \<and> x (target (p1 (handleMotion (switchMode (upd_point 1 (\<lambda>p. p\<lparr>target := Vector2_new 1000000 (- 1000000)\<rparr>) BezierApp_new)) \<lparr>rotationRate = Some \<lparr>beta = Some 1000000, gamma = None\<rparr>\<rparr>))) \<le> 750
   \<and> 50 \<le> y (target (p1 (handleMotion (switchMode (upd_point 1 (\<lambda>p. p\<lparr>target := Vector2_new 1000000 (- 1000000)\<rparr>) BezierApp_new)) \<lparr>rotationRate = Some \<lparr>beta = Some 1000000, gamma = None\<rparr>\<rparr>)))
   \<and> y (target (p1 (handleMotion (switchMode (upd_point 1 (\<lambda>p. p\<lparr>target := Vector2_new 1000000 (- 1000000)\<rparr>) BezierApp_new)) \<lparr>rotationRate = Some \<lparr>beta = Some 1000000, gamma = None\<rparr>\<rparr>))) \<le> 450
   \<and> 50 \<le> x (target (p2 (handleMotion (switchMode (upd_point 1 (\<lambda>p. p\<lparr>target := Vector2_new 1000000 (- 1000000)\<rparr>) BezierApp_new)) \<lparr>rotationRate = Some \<lparr>beta = Some 1000000, gamma = None\<rparr>\<rparr>)))
   \<and> x (target (p2 (handleMotion (switchMode (upd_point 1 (\<lambda>p. p\<lparr>target := Vector2_new 1000000 (- 1000000)\<rparr>) BezierApp_new)) \<lparr>rotationRate = Some \<lparr>beta = Some 1000000, gamma = None\<rparr>\<rparr>))) \<le> 750
   \<and> 50 \<le> y (target (p2 (handleMotion (switchMode (upd_point 1 (\<lambda>p. p\<lparr>target := Vector2_new 1000000 (- 1000000)\<rparr>) BezierApp_new)) \<lparr>rotationRate = Some \<lparr>beta = Some 1000000, gamma = None\<rparr>\<rparr>)))
   \<and> y (target (p2 (handleMotion (switchMode (upd_point 1 (\<lambda>p. p\<lparr>target := Vector2_new 1000000 (- 1000000)\<rparr>) BezierApp_new)) \<lparr>rotationRate = Some \<lparr>beta = Some 1000000, gamma = None\<rparr>\<rparr>))) \<le> 450"
proof -
  let ?A = "upd_point 1 (\<lambda>p. p\<lparr>target := Vector2_new 1000000 (- 1000000)\<rparr>) BezierApp_new"
  let ?B = "switchMode ?A"
  let ?R = "\<lparr>left = 0, top = 0\<rparr>" and ?E = "\<lparr>clientX = 1000000, clientY = - 1000000\<rparr>"
  let ?M = "\<lparr>rotationRate = Some \<lparr>beta = Some 1000000, gamma = None\<rparr>\<rparr>"
  have a: "canvas_width ?A = 800" "canvas_height ?A = 500" "length (points (app_curve ?A)) = 4"
    by (simp_all add: upd_point_def BezierApp_new_def BezierCurve_new_def Let_def)
  have b: "canvas_width ?B = 800" "canvas_height ?B = 500" "length (points (app_curve ?B)) = 4"
    by (simp_all add: switchMode_def upd_point_def BezierApp_new_def BezierCurve_new_def Let_def)
  have t: "x (target (p1 ?A)) = 1000000" "y (target (p1 ?A)) = - 1000000"
    by (simp_all add: p1_def upd_point_def BezierApp_new_def BezierCurve_new_def Let_def Vector2_new_def)
  have m1: "dragged ?A = None" "mode ?A = ''mouse''"
    by (simp_all add: upd_point_def BezierApp_new_def Let_def)
  have m2: "mode ?B = ''motion''" "rotationRate ?M \<noteq> None"
    by (simp_all add: switchMode_def upd_point_def BezierApp_new_def Let_def)
  note u = clampTargets_bounds [OF a, of ?R ?E ?M]
  note v = clampTargets_bounds [OF b, of ?R ?E ?M]
  from u have c1: "50 \<le> x (target (p1 (clampTargets ?A))) \<and> x (target (p1 (clampTargets ?A))) \<le> 750 \<and> 50 \<le> y (target (p1 (clampTargets ?A))) \<and> y (target (p1 (clampTargets ?A))) \<le> 450 \<and> 50 \<le> x (target (p2 (clampTargets ?A))) \<and> x (target (p2 (clampTargets ?A))) \<le> 750 \<and> 50 \<le> y (target (p2 (clampTargets ?A))) \<and> y (target (p2 (clampTargets ?A))) \<le> 450"
    by blast
  from u m1 have c2: "50 \<le> x (target (p1 (mouseMove ?A ?R ?E))) \<and> x (target (p1 (mouseMove ?A ?R ?E))) \<le> 750 \<and> 50 \<le> y (target (p1 (mouseMove ?A ?R ?E))) \<and> y (target (p1 (mouseMove ?A ?R ?E))) \<le> 450 \<and> 50 \<le> x (target (p2 (mouseMove ?A ?R ?E))) \<and> x (target (p2 (mouseMove ?A ?R ?E))) \<le> 750 \<and> 50 \<le> y (target (p2 (mouseMove ?A ?R ?E))) \<and> y (target (p2 (mouseMove ?A ?R ?E))) \<le> 450"
    by blast
  from v m2 have c3: "50 \<le> x (target (p1 (handleMotion ?B ?M))) \<and> x (target (p1 (handleMotion ?B ?M))) \<le> 750 \<and> 50 \<le> y (target (p1 (handleMotion ?B ?M))) \<and> y (target (p1 (handleMotion ?B ?M))) \<le> 450 \<and> 50 \<le> x (target (p2 (handleMotion ?B ?M))) \<and> x (target (p2 (handleMotion ?B ?M))) \<le> 750 \<and> 50 \<le> y (target (p2 (handleMotion ?B ?M))) \<and> y (target (p2 (handleMotion ?B ?M))) \<le> 450"
    by blast
  from a b t m1 m2 c1 c2 c3 show ?thesis by blast
qed

section \<open>Fixed points\<close>

lemma fixed_inv_new: "fixed_inv BezierApp_new"
  by (simp add: fixed_inv_def BezierApp_new_def BezierCurve_new_def ControlPoint_new_def Let_def)

lemma fixed_inv_upd:
  assumes "fixed_inv a" and "i = 1 \<or> i = 2" and "\<And>p. isFixed (f p) = isFixed p"
  shows "fixed_inv (upd_point i f a)"
  using assms by (auto simp: fixed_inv_def)

lemma fixed_inv_dragged:
  "fixed_inv a \<Longrightarrow> d = None \<or> d = Some 1 \<or> d = Some 2 \<Longrightarrow> fixed_inv (a\<lparr>dragged := d\<rparr>)"
  by (simp add: fixed_inv_def)

lemma fixed_inv_other [simp]:
  "fixed_inv (a\<lparr>mousePos := m\<rparr>) = fixed_inv a"
  "fixed_inv (a\<lparr>mode := s\<rparr>) = fixed_inv a"
  "fixed_inv (a\<lparr>physics := ph\<rparr>) = fixed_inv a"
  "fixed_inv (a\<lparr>lastTime := lt\<rparr>) = fixed_inv a"
  by (simp_all add: fixed_inv_def)

lemma fixed_inv_clampTargets: "fixed_inv a \<Longrightarrow> fixed_inv (clampTargets a)"
  by (simp add: clampTargets_def Let_def fixed_inv_upd)

lemma fixed_inv_handleMotion: "fixed_inv a \<Longrightarrow> fixed_inv (handleMotion a e)"
  by (simp add: handleMotion_def Let_def fixed_inv_upd fixed_inv_clampTargets split: option.splits)

lemma fixed_inv_mouseDown_scan:
  "fixed_inv a \<Longrightarrow> set js \<subseteq> {0, 1, 2, 3} \<Longrightarrow> fixed_inv (mouseDown_scan js pos a)"
proof (induction js)
  case Nil
  then show ?case by simp
next
  case (Cons i js)
  show ?case
  proof (cases "\<not> isFixed (points (app_curve a) ! i) \<and> contains (points (app_curve a) ! i) pos")
    case False
    with Cons show ?thesis by (auto simp: Let_def)
  next
    case True
    from Cons.prems(2) have "i = 0 \<or> i = 1 \<or> i = 2 \<or> i = 3" by simp
    with True Cons.prems(1) have i: "i = 1 \<or> i = 2"
      by (auto simp: fixed_inv_def ControlPoint_new_def)
    then have "fixed_inv (a\<lparr>dragged := Some i\<rparr>)"
      using Cons.prems(1) by (auto intro: fixed_inv_dragged)
    then have "fixed_inv (upd_point i (\<lambda>p. p\<lparr>isDragging := True\<rparr>) (a\<lparr>dragged := Some i\<rparr>))"
      using i by (intro fixed_inv_upd) simp_all
    with True show ?thesis by (simp add: Let_def)
  qed
qed

lemma fixed_inv_length: "fixed_inv a \<Longrightarrow> length (points (app_curve a)) = 4"
  by (auto simp: fixed_inv_def)

lemma fixed_inv_mouseDown: "fixed_inv a \<Longrightarrow> fixed_inv (mouseDown a rect e)"
  by (auto simp: mouseDown_def Let_def fixed_inv_length intro!: fixed_inv_mouseDown_scan)

lemma fixed_inv_mouseMove: "fixed_inv a \<Longrightarrow> fixed_inv (mouseMove a rect e)"
proof -
  assume inv: "fixed_inv a"
  show ?thesis
  proof (cases "dragged a")
    case (Some i)
    with inv have "i = 1 \<or> i = 2" by (auto simp: fixed_inv_def)
    with inv Some show ?thesis
      by (simp add: mouseMove_def Let_def fixed_inv_upd)
  next
    case None
    with inv show ?thesis
      by (simp add: mouseMove_def Let_def fixed_inv_upd fixed_inv_clampTargets)
  qed
qed

lemma fixed_inv_mouseUp: "fixed_inv a \<Longrightarrow> fixed_inv (mouseUp a)"
proof -
  assume inv: "fixed_inv a"
  show ?thesis
  proof (cases "dragged a")
    case (Some i)
    with inv have "i = 1 \<or> i = 2" by (auto simp: fixed_inv_def)
    with inv Some show ?thesis
      by (simp add: mouseUp_def fixed_inv_upd fixed_inv_dragged)
  next
    case None
    with inv show ?thesis by (simp add: mouseUp_def)
  qed
qed

lemma fixed_inv_switchMode: "fixed_inv a \<Longrightarrow> fixed_inv (switchMode a)"
  by (simp add: switchMode_def)

lemma fixed_inv_reset: "fixed_inv a \<Longrightarrow> fixed_inv (reset a)"
  by (simp add: reset_def Let_def fixed_inv_upd fixed_inv_dragged)

lemma applyPhysics_isFixed [simp]: "isFixed (applyPhysics p k d dt) = isFixed p"
  by (simp add: applyPhysics_def Let_def)

lemma applyPhysics_fixed_new [simp]:
  "applyPhysics (ControlPoint_new a b True) k d dt = ControlPoint_new a b True"
  by (simp add: applyPhysics_def ControlPoint_new_def)

lemma fixed_inv_updatePhysics: "fixed_inv a \<Longrightarrow> fixed_inv (updatePhysics a dt)"
  by (auto simp: fixed_inv_def updatePhysics_def)

lemma points_update [simp]: "points (update c) = points c"
  by (simp add: update_eq)

lemma fixed_inv_loop: "fixed_inv a \<Longrightarrow> fixed_inv (loop a ts)"
proof -
  assume "fixed_inv a"
  then have "fixed_inv (updatePhysics (a\<lparr>lastTime := ts\<rparr>) dt)" for dt
    by (simp add: fixed_inv_updatePhysics)
  then show ?thesis
    by (simp add: loop_def Let_def fixed_inv_def)
qed

lemma fixed_inv_handle: "fixed_inv a \<Longrightarrow> fixed_inv (handle a ev)"
  by (cases ev)
    (simp_all add: fixed_inv_mouseDown fixed_inv_mouseMove fixed_inv_mouseUp fixed_inv_reset
      fixed_inv_switchMode fixed_inv_handleMotion fixed_inv_loop)

lemma fixed_inv_foldl: "fixed_inv a \<Longrightarrow> fixed_inv (foldl handle a evs)"
  by (induction evs arbitrary: a) (simp_all add: fixed_inv_handle)

lemma fixed_inv_run: "fixed_inv (run evs)"
  by (simp add: run_def fixed_inv_foldl fixed_inv_new)

text \<open>
  Claim C7. The control points constructed fixed are the two end points. After every
  sequence of events of the application (mouse down, move, up and leave, the two
  sliders, reset, mode switch, device motion, animation frames with their physics
  step) both are still fixed and at their constructed positions (160,250) and
  (640,250); any further event leaves them there.
\<close>

theorem fixed_points_never_move:
  "p0 (run []) = ControlPoint_new 160 250 True
   \<and> p3 (run []) = ControlPoint_new 640 250 True
   \<and> \<not> isFixed (p1 (run [])) \<and> \<not> isFixed (p2 (run []))
   \<and> isFixed (p0 (run events)) \<and> isFixed (p3 (run events))
   \<and> \<not> isFixed (p1 (run events)) \<and> \<not> isFixed (p2 (run events))
   \<and> position (p0 (run events)) = position (p0 (run []))
   \<and> position (p3 (run events)) = position (p3 (run []))
   \<and> position (p0 (run events)) = Vector2_new 160 250
   \<and> position (p3 (run events)) = Vector2_new 640 250
   \<and> position (p0 (handle (run events) ev)) = position (p0 (run events))
   \<and> position (p3 (handle (run events) ev)) = position (p3 (run events))"
proof -
  have a: "fixed_inv (run [])" and b: "fixed_inv (run events)" by (rule fixed_inv_run)+
  have "handle (run events) ev = run (events @ [ev])" by (simp add: run_def)
  then have c: "fixed_inv (handle (run events) ev)" by (simp add: fixed_inv_run)
  have r: "fixed_inv s \<Longrightarrow> p0 s = ControlPoint_new 160 250 True \<and> p3 s = ControlPoint_new 640 250 True
     \<and> \<not> isFixed (p1 s) \<and> \<not> isFixed (p2 s)" for s
    by (auto simp: fixed_inv_def p0_def p1_def p2_def p3_def)
  from r [OF a] r [OF b] r [OF c] show ?thesis
    by (simp add: ControlPoint_new_def)
qed

section \<open>Settling of the spring\<close>

lemma steps_Suc_right:
  "steps (Suc n) k d dt p = applyPhysics (steps n k d dt p) k d dt"
  by (induction n arbitrary: p) simp_all

lemma applyPhysics_free_frame:
  assumes "\<not> isFixed p" and "\<not> isDragging p"
  shows "target (applyPhysics p k d dt) = target p"
    "isFixed (applyPhysics p k d dt) = isFixed p"
    "isDragging (applyPhysics p k d dt) = isDragging p"
  using assms by (simp_all add: applyPhysics_def Let_def)

lemma applyPhysics_err:
  assumes "\<not> isFixed p" and "\<not> isDragging p"
  shows "x (target p) - x (position (applyPhysics p 0.08 0.92 (1 / 60)))
           = err_step (x (target p) - x (position p)) (x (velocity p))"
    "y (target p) - y (position (applyPhysics p 0.08 0.92 (1 / 60)))
           = err_step (y (target p) - y (position p)) (y (velocity p))"
    "x (velocity (applyPhysics p 0.08 0.92 (1 / 60)))
           = vel_step (x (target p) - x (position p)) (x (velocity p))"
    "y (velocity (applyPhysics p 0.08 0.92 (1 / 60)))
           = vel_step (y (target p) - y (position p)) (y (velocity p))"
  using assms
  by (simp_all add: applyPhysics_def Let_def add_def subtract_def multiply_def Vector2_new_def
      err_step_def vel_step_def)

lemma step_linear:
  "err_step (a * c) (b * c) = err_step a b * c" "vel_step (a * c) (b * c) = vel_step a b * c"
  by (simp_all add: err_step_def vel_step_def algebra_simps)

lemma steps_linear:
  assumes "\<not> isFixed p" and "\<not> isDragging p" and "velocity p = Vector2_new 0 0"
  shows "\<not> isFixed (steps n 0.08 0.92 (1 / 60) p) \<and> \<not> isDragging (steps n 0.08 0.92 (1 / 60) p)
       \<and> target (steps n 0.08 0.92 (1 / 60) p) = target p
       \<and> x (target p) - x (position (steps n 0.08 0.92 (1 / 60) p))
            = fst (coefs n) * (x (target p) - x (position p))
       \<and> y (target p) - y (position (steps n 0.08 0.92 (1 / 60) p))
            = fst (coefs n) * (y (target p) - y (position p))
       \<and> x (velocity (steps n 0.08 0.92 (1 / 60) p))
            = snd (coefs n) * (x (target p) - x (position p))
       \<and> y (velocity (steps n 0.08 0.92 (1 / 60) p))
            = snd (coefs n) * (y (target p) - y (position p))"
proof (induction n)
  case 0
  show ?case using assms by (simp add: Vector2_new_def)
next
  case (Suc n)
  let ?q = "steps n 0.08 0.92 (1 / 60) p"
  from Suc have f: "\<not> isFixed ?q" "\<not> isDragging ?q" and t: "target ?q = target p"
    and ex: "x (target p) - x (position ?q) = fst (coefs n) * (x (target p) - x (position p))"
    and ey: "y (target p) - y (position ?q) = fst (coefs n) * (y (target p) - y (position p))"
    and vx: "x (velocity ?q) = snd (coefs n) * (x (target p) - x (position p))"
    and vy: "y (velocity ?q) = snd (coefs n) * (y (target p) - y (position p))"
    by simp_all
  note e = applyPhysics_err [OF f, unfolded t]
  note fr = applyPhysics_free_frame [OF f, of "0.08" "0.92" "1 / 60"]
  have 1: "x (target p) - x (position (applyPhysics ?q 0.08 0.92 (1 / 60)))
        = fst (coefs (Suc n)) * (x (target p) - x (position p))"
    unfolding e(1) ex vx step_linear by simp
  have 2: "y (target p) - y (position (applyPhysics ?q 0.08 0.92 (1 / 60)))
        = fst (coefs (Suc n)) * (y (target p) - y (position p))"
    unfolding e(2) ey vy step_linear by simp
  have 3: "x (velocity (applyPhysics ?q 0.08 0.92 (1 / 60)))
        = snd (coefs (Suc n)) * (x (target p) - x (position p))"
    unfolding e(3) ex vx step_linear by simp
  have 4: "y (velocity (applyPhysics ?q 0.08 0.92 (1 / 60)))
        = snd (coefs (Suc n)) * (y (target p) - y (position p))"
    unfolding e(4) ey vy step_linear by simp
  show ?case
    unfolding steps_Suc_right using fr f t 1 2 3 4 by simp
qed

lemma coefs_inv: "0 \<le> snd (coefs n) \<and> snd (coefs n) \<le> 3 / 50 * fst (coefs n)"
proof (induction n)
  case 0
  show ?case by simp
next
  case (Suc n)
  then have h: "0 \<le> snd (coefs n)" "snd (coefs n) \<le> 3 / 50 * fst (coefs n)" by simp_all
  have "0 \<le> vel_step (fst (coefs n)) (snd (coefs n))"
    using h by (simp add: vel_step_def algebra_simps)
  moreover have "vel_step (fst (coefs n)) (snd (coefs n))
      \<le> 3 / 50 * err_step (fst (coefs n)) (snd (coefs n))"
    using h by (simp add: err_step_def vel_step_def algebra_simps)
  ultimately show ?case by simp
qed

lemma coefs_nonneg: "0 \<le> fst (coefs n)"
  using coefs_inv [of n] by linarith

lemma coefs_decreasing: "fst (coefs (Suc n)) \<le> fst (coefs n)"
proof -
  from coefs_inv [of n]
  have h: "0 \<le> snd (coefs n)" "snd (coefs n) \<le> 3 / 50 * fst (coefs n)" by simp_all
  then show ?thesis by (simp add: err_step_def algebra_simps)
qed

lemma coefs_antimono: "m \<le> n \<Longrightarrow> fst (coefs n) \<le> fst (coefs m)"
proof (induction n)
  case 0
  then show ?case by simp
next
  case (Suc n)
  show ?case
  proof (cases "m = Suc n")
    case True
    then show ?thesis by simp
  next
    case False
    with Suc.prems have "m \<le> n" by simp
    with Suc.IH have "fst (coefs n) \<le> fst (coefs m)" by simp
    with coefs_decreasing [of n] show ?thesis by linarith
  qed
qed

lemma coefs_le_1: "fst (coefs n) \<le> 1"
  using coefs_antimono [of 0 n] by simp

lemma coefs_lower: "1 - real n * (4531 / 4500000) \<le> fst (coefs n)"
proof (induction n)
  case 0
  show ?case by simp
next
  case (Suc n)
  from coefs_inv [of n]
  have h: "0 \<le> snd (coefs n)" "snd (coefs n) \<le> 3 / 50 * fst (coefs n)" by simp_all
  have "fst (coefs n) - 4531 / 4500000 * fst (coefs n)
          \<le> err_step (fst (coefs n)) (snd (coefs n))"
    using h by (simp add: err_step_def algebra_simps)
  moreover have "fst (coefs n) - 4531 / 4500000 \<le> fst (coefs n) - 4531 / 4500000 * fst (coefs n)"
    using coefs_le_1 [of n] by simp
  moreover have "1 - real (Suc n) * (4531 / 4500000) = 1 - real n * (4531 / 4500000) - 4531 / 4500000"
    by (simp add: algebra_simps)
  ultimately show ?case using Suc by simp
qed

lemma coefs_upper: "fst (coefs n) - 67 / 100 * snd (coefs n) \<le> (9991 / 10000) ^ n"
proof (induction n)
  case 0
  show ?case by simp
next
  case (Suc n)
  from coefs_inv [of n]
  have h: "0 \<le> snd (coefs n)" "snd (coefs n) \<le> 3 / 50 * fst (coefs n)" by simp_all
  have "err_step (fst (coefs n)) (snd (coefs n)) - 67 / 100 * vel_step (fst (coefs n)) (snd (coefs n))
          \<le> 9991 / 10000 * (fst (coefs n) - 67 / 100 * snd (coefs n))"
    using h by (simp add: err_step_def vel_step_def algebra_simps)
  also have "\<dots> \<le> 9991 / 10000 * (9991 / 10000) ^ n"
    using Suc by simp
  finally show ?case by simp
qed

lemma decay_6000: "(9991 / 10000 :: real) ^ 6000 \<le> 4507 / 1000000"
proof -
  have a: "(9991 / 10000 :: real) ^ 16 \<le> 985697 / 1000000" by (simp add: power_divide)
  have b: "(985697 / 1000000 :: real) ^ 3 \<le> 478851 / 500000" by (simp add: power_divide)
  have c: "(478851 / 500000 :: real) ^ 5 \<le> 805661 / 1000000" by (simp add: power_divide)
  have d: "(805661 / 1000000 :: real) ^ 5 \<le> 339439 / 1000000" by (simp add: power_divide)
  have e: "(339439 / 1000000 :: real) ^ 5 \<le> 4507 / 1000000" by (simp add: power_divide)
  have "(9991 / 10000 :: real) ^ 6000 = (((((9991 / 10000) ^ 16) ^ 3) ^ 5) ^ 5) ^ 5"
    by (simp only: power_mult [symmetric]) simp
  also have "\<dots> \<le> ((((985697 / 1000000) ^ 3) ^ 5) ^ 5) ^ 5"
    by (intro power_mono a) simp_all
  also have "\<dots> \<le> (((478851 / 500000) ^ 5) ^ 5) ^ 5"
    by (intro power_mono b) simp_all
  also have "\<dots> \<le> ((805661 / 1000000) ^ 5) ^ 5"
    by (intro power_mono c) simp_all
  also have "\<dots> \<le> (339439 / 1000000) ^ 5"
    by (intro power_mono d) simp_all
  also note e
  finally show ?thesis .
qed

lemma dist_steps:
  assumes "\<not> isFixed p" and "\<not> isDragging p" and "velocity p = Vector2_new 0 0"
  shows "distanceTo (position (steps n 0.08 0.92 (1 / 60) p)) (target p)
           = fst (coefs n) * distanceTo (position p) (target p)"
proof -
  let ?q = "steps n 0.08 0.92 (1 / 60) p"
  define a where "a = fst (coefs n)"
  from steps_linear [OF assms, of n]
  have ex: "x (target p) - x (position ?q) = a * (x (target p) - x (position p))"
    and ey: "y (target p) - y (position ?q) = a * (y (target p) - y (position p))"
    by (simp_all add: a_def)
  have 1: "x (position ?q) - x (target p) = a * (x (position p) - x (target p))"
    using ex by (simp add: algebra_simps)
  have 2: "y (position ?q) - y (target p) = a * (y (position p) - y (target p))"
    using ey by (simp add: algebra_simps)
  have "(x (position ?q) - x (target p)) * (x (position ?q) - x (target p))
        + (y (position ?q) - y (target p)) * (y (position ?q) - y (target p))
      = a\<^sup>2 * ((x (position p) - x (target p)) * (x (position p) - x (target p))
           + (y (position p) - y (target p)) * (y (position p) - y (target p)))"
    unfolding 1 2 by (simp add: algebra_simps power2_eq_square)
  then have "distanceTo (position ?q) (target p)
      = sqrt (a\<^sup>2 * ((x (position p) - x (target p)) * (x (position p) - x (target p))
           + (y (position p) - y (target p)) * (y (position p) - y (target p))))"
    by (simp add: distanceTo_def subtract_def length_vec_def Vector2_new_def)
  also have "\<dots> = \<bar>a\<bar> * distanceTo (position p) (target p)"
    by (simp add: real_sqrt_mult distanceTo_def subtract_def length_vec_def Vector2_new_def)
  also have "\<bar>a\<bar> = a" using coefs_nonneg [of n] by (simp add: a_def)
  finally show ?thesis by (simp add: a_def)
qed

lemma coefs_far: "n \<le> 300 \<Longrightarrow> 139 < 200 * fst (coefs n)"
proof -
  assume "n \<le> 300"
  then have "real n \<le> 300" by simp
  then have "real n * (4531 / 4500000) \<le> 300 * (4531 / 4500000)"
    by (rule mult_right_mono) simp
  with coefs_lower [of n] show ?thesis by simp
qed

lemma coefs_near: "6000 \<le> n \<Longrightarrow> 200 * fst (coefs n) \<le> 1"
proof -
  assume "6000 \<le> n"
  then have m: "fst (coefs n) \<le> fst (coefs 6000)" by (rule coefs_antimono)
  from coefs_inv [of 6000]
  have h: "0 \<le> snd (coefs 6000)" "snd (coefs 6000) \<le> 3 / 50 * fst (coefs 6000)" by simp_all
  from coefs_upper [of 6000] decay_6000
  have "fst (coefs 6000) - 67 / 100 * snd (coefs 6000) \<le> 4507 / 1000000" by linarith
  with h m show ?thesis by linarith
qed

lemma steps_target:
  assumes "\<not> isFixed p" and "\<not> isDragging p" and "velocity p = Vector2_new 0 0"
  shows "target (steps n 0.08 0.92 (1 / 60) p) = target p"
  using steps_linear [OF assms, of n] by simp

lemma ex_le_Suc: "(\<exists>m\<le>Suc n. Q m) \<longleftrightarrow> Q 0 \<or> (\<exists>m\<le>n. Q (Suc m))"
proof
  assume "\<exists>m\<le>Suc n. Q m"
  then obtain m where m: "m \<le> Suc n" "Q m" by blast
  show "Q 0 \<or> (\<exists>m\<le>n. Q (Suc m))"
  proof (cases m)
    case 0
    with m show ?thesis by simp
  next
    case (Suc j)
    with m show ?thesis by auto
  qed
next
  assume "Q 0 \<or> (\<exists>m\<le>n. Q (Suc m))"
  then show "\<exists>m\<le>Suc n. Q m" by auto
qed

lemma within_steps_iff:
  "within_steps n k d dt p \<longleftrightarrow>
     (\<exists>m\<le>n. distanceTo (position (steps m k d dt p)) (target (steps m k d dt p)) \<le> 1)"
proof (induction n arbitrary: p)
  case 0
  show ?case by simp
next
  case (Suc n)
  show ?case
    unfolding ex_le_Suc [where n = n] within_steps.simps Suc.IH by simp
qed

lemma spring_not_within_300:
  assumes "\<not> isFixed p" and "\<not> isDragging p" and "velocity p = Vector2_new 0 0"
    and "distanceTo (position p) (target p) = 200"
  shows "\<not> within_steps 299 0.08 0.92 (1 / 60) p"
proof
  assume "within_steps 299 0.08 0.92 (1 / 60) p"
  then obtain m where m: "m \<le> 299"
    "distanceTo (position (steps m 0.08 0.92 (1 / 60) p)) (target (steps m 0.08 0.92 (1 / 60) p)) \<le> 1"
    unfolding within_steps_iff by blast
  from m(2) have "fst (coefs m) * 200 \<le> 1"
    unfolding steps_target [OF assms(1-3)] dist_steps [OF assms(1-3)] assms(4) .
  moreover from m(1) have "139 < 200 * fst (coefs m)" by (intro coefs_far) simp
  ultimately show False by simp
qed

text \<open>
  Claim C3, as the code has it. With stiffness 0.08, damping 0.92 and dt = 1/60, from
  every free point at rest 200 units away from its target, the target stays where it
  is, the distance to it never grows from one call to the next and so never exceeds
  200, it is still above 139 after each of the first 300 calls, and it is at most 1
  after 6000 calls and after every later one. So the point does come within 1 unit of
  the target, within 6000 calls but not within fewer than 300.
\<close>

theorem spring_settles_slowly:
  assumes "\<not> isFixed p" and "\<not> isDragging p" and "velocity p = Vector2_new 0 0"
    and "distanceTo (position p) (target p) = 200"
  shows "(\<forall>n. target (steps n 0.08 0.92 (1 / 60) p) = target p)
       \<and> (\<forall>n. distanceTo (position (steps (Suc n) 0.08 0.92 (1 / 60) p)) (target p)
               \<le> distanceTo (position (steps n 0.08 0.92 (1 / 60) p)) (target p))
       \<and> (\<forall>n. distanceTo (position (steps n 0.08 0.92 (1 / 60) p)) (target p) \<le> 200)
       \<and> (\<forall>n\<le>300. 139 < distanceTo (position (steps n 0.08 0.92 (1 / 60) p)) (target p))
       \<and> (\<forall>n\<ge>6000. distanceTo (position (steps n 0.08 0.92 (1 / 60) p)) (target p) \<le> 1)
       \<and> \<not> within_steps 299 0.08 0.92 (1 / 60) p
       \<and> within_steps 6000 0.08 0.92 (1 / 60) p"
proof -
  note free = assms(1-3)
  have d: "distanceTo (position (steps n 0.08 0.92 (1 / 60) p)) (target p) = fst (coefs n) * 200" for n
    unfolding dist_steps [OF free] assms(4) ..
  have t: "\<forall>n. target (steps n 0.08 0.92 (1 / 60) p) = target p"
    using steps_target [OF free] by blast
  have mono: "\<forall>n. distanceTo (position (steps (Suc n) 0.08 0.92 (1 / 60) p)) (target p)
               \<le> distanceTo (position (steps n 0.08 0.92 (1 / 60) p)) (target p)"
    unfolding d using coefs_decreasing by simp
  have bound: "\<forall>n. distanceTo (position (steps n 0.08 0.92 (1 / 60) p)) (target p) \<le> 200"
    unfolding d using coefs_le_1 by simp
  have far: "\<forall>n\<le>300. 139 < distanceTo (position (steps n 0.08 0.92 (1 / 60) p)) (target p)"
    unfolding d using coefs_far by (simp add: mult.commute)
  have near: "\<forall>n\<ge>6000. distanceTo (position (steps n 0.08 0.92 (1 / 60) p)) (target p) \<le> 1"
    unfolding d using coefs_near by (simp add: mult.commute)
  have no: "\<not> within_steps 299 0.08 0.92 (1 / 60) p"
    by (rule spring_not_within_300 [OF assms])
  have "distanceTo (position (steps 6000 0.08 0.92 (1 / 60) p))
          (target (steps 6000 0.08 0.92 (1 / 60) p)) \<le> 1"
    using near t by simp
  then have yes: "within_steps 6000 0.08 0.92 (1 / 60) p"
    unfolding within_steps_iff by blast
  from t mono bound far near no yes show ?thesis by blast
qed

theorem spring_settles_slowly_witness:
  "\<not> isFixed ((ControlPoint_new 0 0 False)\<lparr>target := Vector2_new 200 0\<rparr>)
   \<and> \<not> isDragging ((ControlPoint_new 0 0 False)\<lparr>target := Vector2_new 200 0\<rparr>)
   \<and> velocity ((ControlPoint_new 0 0 False)\<lparr>target := Vector2_new 200 0\<rparr>) = Vector2_new 0 0
   \<and> distanceTo (position ((ControlPoint_new 0 0 False)\<lparr>target := Vector2_new 200 0\<rparr>))
        (target ((ControlPoint_new 0 0 False)\<lparr>target := Vector2_new 200 0\<rparr>)) = 200
   \<and> (300::nat) \<le> 300 \<and> (6000::nat) \<ge> 6000
   \<and> 139 < distanceTo (position (steps 300 0.08 0.92 (1 / 60)
        ((ControlPoint_new 0 0 False)\<lparr>target := Vector2_new 200 0\<rparr>)))
        (target ((ControlPoint_new 0 0 False)\<lparr>target := Vector2_new 200 0\<rparr>))
   \<and> distanceTo (position (steps 6000 0.08 0.92 (1 / 60)
        ((ControlPoint_new 0 0 False)\<lparr>target := Vector2_new 200 0\<rparr>)))
        (target ((ControlPoint_new 0 0 False)\<lparr>target := Vector2_new 200 0\<rparr>)) \<le> 1"
proof -
  let ?p = "(ControlPoint_new 0 0 False)\<lparr>target := Vector2_new 200 0\<rparr>"
  have h1: "\<not> isFixed ?p" and h2: "\<not> isDragging ?p" and h3: "velocity ?p = Vector2_new 0 0"
    by (simp_all add: ControlPoint_new_def)
  have h4: "distanceTo (position ?p) (target ?p) = 200"
    by (simp add: ControlPoint_new_def distanceTo_def subtract_def length_vec_def Vector2_new_def)
  have i: "(300::nat) \<le> 300" and j: "(6000::nat) \<ge> 6000" by simp_all
  note u = spring_settles_slowly [OF h1 h2 h3 h4]
  from u i have a: "139 < distanceTo (position (steps 300 0.08 0.92 (1 / 60) ?p)) (target ?p)"
    by blast
  from u j have b: "distanceTo (position (steps 6000 0.08 0.92 (1 / 60) ?p)) (target ?p) \<le> 1"
    by blast
  from h1 h2 h3 h4 i j a b show ?thesis by blast
qed

text \<open>
  The claim C3 as stated fails: the point at (0,0) at rest with its target at (200,0)
  is not within 1 unit of the target after any number of calls below 300.
\<close>

theorem spring_not_settled_in_300:
  "\<not> isFixed ((ControlPoint_new 0 0 False)\<lparr>target := Vector2_new 200 0\<rparr>)
   \<and> \<not> isDragging ((ControlPoint_new 0 0 False)\<lparr>target := Vector2_new 200 0\<rparr>)
   \<and> velocity ((ControlPoint_new 0 0 False)\<lparr>target := Vector2_new 200 0\<rparr>) = Vector2_new 0 0
   \<and> distanceTo (position ((ControlPoint_new 0 0 False)\<lparr>target := Vector2_new 200 0\<rparr>))
        (target ((ControlPoint_new 0 0 False)\<lparr>target := Vector2_new 200 0\<rparr>)) = 200
   \<and> \<not> within_steps 299 0.08 0.92 (1 / 60)
        ((ControlPoint_new 0 0 False)\<lparr>target := Vector2_new 200 0\<rparr>)"
proof -
  let ?p = "(ControlPoint_new 0 0 False)\<lparr>target := Vector2_new 200 0\<rparr>"
  have h1: "\<not> isFixed ?p" and h2: "\<not> isDragging ?p" and h3: "velocity ?p = Vector2_new 0 0"
    by (simp_all add: ControlPoint_new_def)
  have h4: "distanceTo (position ?p) (target ?p) = 200"
    by (simp add: ControlPoint_new_def distanceTo_def subtract_def length_vec_def Vector2_new_def)
  from h1 h2 h3 h4 spring_not_within_300 [OF h1 h2 h3 h4] show ?thesis by blast
qed

end
